theory Spec2Isabelle
  imports Complex_Main "HOL-Library.Multiset"
begin

chapter \<open>The embedding\<close>

section \<open>EEG images: projection of the electrode positions\<close>

text \<open>
  The notebook \<^verbatim>\<open>eeg_to_images.ipynb\<close> computes with Python floats. The
  embedding reads them as real numbers: \<^verbatim>\<open>m.sqrt\<close>, \<^verbatim>\<open>m.cos\<close> and
  \<^verbatim>\<open>m.sin\<close> are the real functions, and \<^verbatim>\<open>m.atan2(y, x)\<close> is the
  angle of the point \<open>(x, y)\<close> in \<open>(-pi, pi]\<close>, with the value \<open>0\<close> at the
  origin (the result of \<^verbatim>\<open>m.atan2(0.0, 0.0)\<close>). Rounding and signed zeros are
  not modelled. A position \<^verbatim>\<open>pos\<close> is the triple \<open>(pos[0], pos[1], pos[2])\<close>.
\<close>

definition atan2 :: "real \<Rightarrow> real \<Rightarrow> real" where
  "atan2 y x =
     (if 0 < x then arctan (y / x)
      else if x < 0 then (if 0 \<le> y then arctan (y / x) + pi else arctan (y / x) - pi)
      else if 0 < y then pi / 2
      else if y < 0 then - (pi / 2)
      else 0)"

definition cart2sph :: "real \<Rightarrow> real \<Rightarrow> real \<Rightarrow> real \<times> real \<times> real" where
  "cart2sph x y z =
     (let x2_y2 = x\<^sup>2 + y\<^sup>2;
          r = sqrt (x2_y2 + z\<^sup>2);
          elev = atan2 z (sqrt x2_y2);
          az = atan2 y x
      in (r, elev, az))"

definition pol2cart :: "real \<Rightarrow> real \<Rightarrow> real \<times> real" where
  "pol2cart theta rho = (rho * cos theta, rho * sin theta)"

definition azim_proj :: "real \<times> real \<times> real \<Rightarrow> real \<times> real" where
  "azim_proj pos =
     (case pos of (p0, p1, p2) \<Rightarrow>
        (case cart2sph p0 p1 p2 of (r, elev, az) \<Rightarrow> pol2cart az (pi / 2 - elev)))"

section \<open>EEG images: gen_images\<close>

text \<open>
  Exceptions are values of \<open>error\<close>; a function that can raise returns \<open>error + 'a\<close>.
  An entry of a float array is an \<open>npfloat\<close>: a real number, NaN or an infinity, so that
  \<^verbatim>\<open>np.isnan\<close> and \<^verbatim>\<open>np.nan_to_num\<close> have something to do
  (\<open>float_max\<close> is the largest finite double, which \<^verbatim>\<open>nan_to_num\<close> puts in
  place of an infinity). Python numbers that the source mixes are \<open>pynum\<close>: the true
  division \<^verbatim>\<open>/\<close> of two ints is a float, \<^verbatim>\<open>int(...)\<close> truncates, and
  \<^verbatim>\<open>range\<close> of a float raises \<^verbatim>\<open>TypeError\<close>.

  The feature matrix is a record of its column count (\<^verbatim>\<open>features.shape[1]\<close>) and
  its rows (\<^verbatim>\<open>features.shape[0]\<close> is their number). The electrode locations are a
  list of pairs (an array of shape \<open>[n_electrodes, 2]\<close>).

  The library calls are parameters, collected in the record \<open>library\<close>:
  \<^item> \<open>griddata L locs vals\<close> stands for
    \<^verbatim>\<open>griddata(locs, vals, xi, method='cubic', fill_value=np.nan)\<close>: it may raise, and
    otherwise gives the interpolant that is evaluated at every grid point of \<open>xi\<close>;
  \<^item> \<open>scale L\<close> stands for \<^verbatim>\<open>sklearn.preprocessing.scale\<close> on a
    one-dimensional array;
  \<^item> \<open>normal L k s\<close> is the \<open>s\<close>-th standard normal draw of the \<open>k\<close>-th call of
    \<^verbatim>\<open>np.random.normal\<close>, which \<open>augment_EEG\<close> multiplies by its
    \<^verbatim>\<open>scale\<close> argument.
  \<^verbatim>\<open>PCA\<close> is not imported by the notebook, so the branch \<^verbatim>\<open>pca=True\<close>
  of \<open>augment_EEG\<close> raises \<^verbatim>\<open>NameError\<close>.

  \<open>mgrid_axis\<close> is one axis of \<^verbatim>\<open>np.mgrid[start:stop:n*1j]\<close>: \<open>n\<close> points
  from \<open>start\<close> to \<open>stop\<close> inclusive. The band arrays \<^verbatim>\<open>temp_interp[c]\<close> of
  shape \<open>[n_samples, n, n]\<close> are kept flat in C order (\<open>flat_band\<close>), which is the order
  a boolean mask selects and assigns in (\<open>assign_masked\<close>); \<open>swapaxes_tensor\<close> reads
  the entry \<open>[i, c, r, q]\<close> of the returned tensor out of them.

  \<open>right_triangle_griddata\<close>, \<open>sk_scale\<close> and \<open>example_library\<close> give the
  parameters a concrete value for the evaluated examples: three electrodes at the
  corners \<open>(0,0)\<close>, \<open>(a,0)\<close>, \<open>(0,a)\<close> of a right triangle that carry one common
  value, for which the cubic interpolant is that value inside the triangle and
  \<^verbatim>\<open>fill_value\<close> outside, and standardisation in real arithmetic (a standard
  deviation of zero is replaced by one; an empty or non-finite input raises).
\<close>

datatype error =
    AssertionError | ZeroDivisionError | TypeError | NameError | ValueError
  | AxisError | IndexError | KeyError | QhullError | FileNotFoundError | AttributeError

datatype npfloat = Num real | NaN | PosInf | NegInf

fun isnan :: "npfloat \<Rightarrow> bool" where
  "isnan NaN = True"
| "isnan _ = False"

fun isfinite :: "npfloat \<Rightarrow> bool" where
  "isfinite (Num _) = True"
| "isfinite _ = False"

definition float_max :: real where
  "float_max = (2 - 1 / 2 ^ 52) * 2 ^ 1023"

fun nan_to_num :: "npfloat \<Rightarrow> npfloat" where
  "nan_to_num (Num x) = Num x"
| "nan_to_num NaN = Num 0"
| "nan_to_num PosInf = Num float_max"
| "nan_to_num NegInf = Num (- float_max)"

datatype pynum = PyInt int | PyFloat real

fun py_truediv :: "pynum \<Rightarrow> pynum \<Rightarrow> error + pynum" where
  "py_truediv (PyInt a) (PyInt b) =
     (if b = 0 then Inl ZeroDivisionError else Inr (PyFloat (real_of_int a / real_of_int b)))"
| "py_truediv (PyInt a) (PyFloat b) =
     (if b = 0 then Inl ZeroDivisionError else Inr (PyFloat (real_of_int a / b)))"
| "py_truediv (PyFloat a) (PyInt b) =
     (if b = 0 then Inl ZeroDivisionError else Inr (PyFloat (a / real_of_int b)))"
| "py_truediv (PyFloat a) (PyFloat b) =
     (if b = 0 then Inl ZeroDivisionError else Inr (PyFloat (a / b)))"

fun py_int :: "pynum \<Rightarrow> int" where
  "py_int (PyInt a) = a"
| "py_int (PyFloat a) = (if 0 \<le> a then \<lfloor>a\<rfloor> else \<lceil>a\<rceil>)"

fun py_range :: "pynum \<Rightarrow> error + nat list" where
  "py_range (PyInt a) = Inr [0..<nat a]"
| "py_range (PyFloat a) = Inl TypeError"

fun mapM_err :: "('a \<Rightarrow> error + 'b) \<Rightarrow> 'a list \<Rightarrow> error + 'b list" where
  "mapM_err f [] = Inr []"
| "mapM_err f (x # xs) =
     (case f x of
        Inl e \<Rightarrow> Inl e
      | Inr y \<Rightarrow> (case mapM_err f xs of Inl e \<Rightarrow> Inl e | Inr ys \<Rightarrow> Inr (y # ys)))"

definition slice :: "nat \<Rightarrow> nat \<Rightarrow> 'a list \<Rightarrow> 'a list" where
  "slice a b xs = drop a (take b xs)"

record feature_matrix =
  n_features :: nat
  samples :: "real list list"

record library =
  griddata :: "(real \<times> real) list \<Rightarrow> real list \<Rightarrow> error + (real \<times> real \<Rightarrow> npfloat)"
  scale :: "npfloat list \<Rightarrow> error + npfloat list"
  normal :: "nat \<Rightarrow> nat \<Rightarrow> real"

definition np_mean :: "real list \<Rightarrow> real" where
  "np_mean xs = sum_list xs / real (length xs)"

definition np_std :: "real list \<Rightarrow> real" where
  "np_std xs = sqrt (np_mean (map (\<lambda>x. (x - np_mean xs)\<^sup>2) xs))"

definition column :: "real list list \<Rightarrow> nat \<Rightarrow> real list" where
  "column data f = map (\<lambda>row. row ! f) data"

definition augment_EEG ::
  "library \<Rightarrow> nat \<Rightarrow> nat \<Rightarrow> real list list \<Rightarrow> real \<Rightarrow> bool \<Rightarrow> nat \<Rightarrow> error + real list list" where
  "augment_EEG L call0 width data stdMult pca n_components =
     (if pca then Inl NameError
      else if data \<noteq> [] \<and> (\<exists>f \<in> set [0..<width]. stdMult * np_std (column data f) < 0)
        then Inl ValueError
      else Inr (map (\<lambda>s. map (\<lambda>f. data ! s ! f
                     + stdMult * np_std (column data f) * normal L (call0 + f) s) [0..<width])
                  [0..<length data]))"

definition mgrid_axis :: "real \<Rightarrow> real \<Rightarrow> nat \<Rightarrow> real list" where
  "mgrid_axis start stop n =
     (let step = (if n \<noteq> 1 then (stop - start) / (real n - 1) else 1)
      in map (\<lambda>k. real k * step + start) [0..<n])"

fun assign_masked :: "npfloat list \<Rightarrow> npfloat list \<Rightarrow> npfloat list" where
  "assign_masked [] vs = []"
| "assign_masked (a # as) vs =
     (if isnan a then a # assign_masked as vs
      else (case vs of [] \<Rightarrow> a # assign_masked as [] | v # vs' \<Rightarrow> v # assign_masked as vs'))"

definition normalise_band :: "library \<Rightarrow> bool \<Rightarrow> npfloat list \<Rightarrow> error + npfloat list" where
  "normalise_band L normalise a =
     (if normalise then
        (case scale L (filter (\<lambda>v. \<not> isnan v) a) of
           Inl e \<Rightarrow> Inl e
         | Inr s \<Rightarrow>
             if length s \<noteq> length (filter (\<lambda>v. \<not> isnan v) a) then Inl ValueError
             else Inr (map nan_to_num (assign_masked a s)))
      else Inr (map nan_to_num a))"

definition interpolate_image ::
  "library \<Rightarrow> (real \<times> real) list \<Rightarrow> real list \<Rightarrow> real list \<Rightarrow> real list \<Rightarrow> error + npfloat list list" where
  "interpolate_image L locs vals gx gy =
     (case griddata L locs vals of
        Inl e \<Rightarrow> Inl e
      | Inr ip \<Rightarrow> Inr (map (\<lambda>x. map (\<lambda>y. ip (x, y)) gy) gx))"

definition split_bands :: "feature_matrix \<Rightarrow> nat \<Rightarrow> nat \<Rightarrow> real list list list" where
  "split_bands features nElectrodes nc =
     map (\<lambda>c. map (slice (c * nElectrodes) (nElectrodes * (c + 1))) (samples features)) [0..<nc]"

definition interpolate_all ::
  "library \<Rightarrow> (real \<times> real) list \<Rightarrow> real list list list \<Rightarrow> nat \<Rightarrow> nat \<Rightarrow> real list \<Rightarrow> real list
     \<Rightarrow> error + npfloat list list list list" where
  "interpolate_all L locs feat_array_temp nc n_samples gx gy =
     mapM_err (\<lambda>i. mapM_err (\<lambda>c. interpolate_image L locs (feat_array_temp ! c ! i) gx gy) [0..<nc])
       [0..<n_samples]"

definition flat_band :: "npfloat list list list list \<Rightarrow> nat \<Rightarrow> nat \<Rightarrow> npfloat list" where
  "flat_band interp n_samples c = concat (map (\<lambda>i. concat (interp ! i ! c)) [0..<n_samples])"

definition swapaxes_tensor :: "npfloat list list \<Rightarrow> nat \<Rightarrow> nat \<Rightarrow> nat \<Rightarrow> npfloat list list list list" where
  "swapaxes_tensor temp_interp nc n_samples n_gridpoints =
     map (\<lambda>i. map (\<lambda>c. map (\<lambda>r. map (\<lambda>q.
            temp_interp ! c ! ((i * n_gridpoints + r) * n_gridpoints + q))
          [0..<n_gridpoints]) [0..<n_gridpoints]) [0..<nc]) [0..<n_samples]"

definition gen_images ::
  "library \<Rightarrow> (real \<times> real) list \<Rightarrow> feature_matrix \<Rightarrow> nat \<Rightarrow> bool \<Rightarrow> bool \<Rightarrow> bool \<Rightarrow> real \<Rightarrow> nat \<Rightarrow> bool
     \<Rightarrow> error + npfloat list list list list" where
  "gen_images L locs features n_gridpoints normalise augment pca std_mult n_components edgeless =
     (let nElectrodes = length locs in
      if nElectrodes = 0 then Inl ZeroDivisionError
      else if n_features features mod nElectrodes \<noteq> 0 then Inl AssertionError
      else
        (case py_truediv (PyInt (int (n_features features))) (PyInt (int nElectrodes)) of
           Inl e \<Rightarrow> Inl e
         | Inr n_colors \<Rightarrow>
        (let nc = nat (py_int n_colors);
             feat_array_temp0 = split_bands features nElectrodes nc
         in
        (case (if augment
               then mapM_err (\<lambda>c. augment_EEG L (c * nElectrodes) nElectrodes (feat_array_temp0 ! c)
                                     std_mult pca n_components) [0..<nc]
               else Inr feat_array_temp0) of
           Inl e \<Rightarrow> Inl e
         | Inr feat_array_temp1 \<Rightarrow>
        (let n_samples = length (samples features);
             min_x = Min (set (map fst locs)); max_x = Max (set (map fst locs));
             min_y = Min (set (map snd locs)); max_y = Max (set (map snd locs));
             grid_x = mgrid_axis min_x max_x n_gridpoints;
             grid_y = mgrid_axis min_y max_y n_gridpoints
         in
        (case (if edgeless
               then (case py_range n_colors of
                       Inl e \<Rightarrow> Inl e
                     | Inr cs \<Rightarrow>
                         Inr (locs @ [(min_x, min_y), (min_x, max_y), (max_x, min_y), (max_x, max_y)],
                              map (\<lambda>band. map (\<lambda>row. row @ replicate 4 0) band) feat_array_temp1))
               else Inr (locs, feat_array_temp1)) of
           Inl e \<Rightarrow> Inl e
         | Inr (locs', feat_array_temp) \<Rightarrow>
        (case interpolate_all L locs' feat_array_temp nc n_samples grid_x grid_y of
           Inl e \<Rightarrow> Inl e
         | Inr interp \<Rightarrow>
        (case mapM_err (\<lambda>c. normalise_band L normalise (flat_band interp n_samples c)) [0..<nc] of
           Inl e \<Rightarrow> Inl e
         | Inr temp_interp \<Rightarrow>
             if nc = 0 then Inl AxisError
             else Inr (swapaxes_tensor temp_interp nc n_samples n_gridpoints)))))))))"

definition right_triangle_griddata ::
  "(real \<times> real) list \<Rightarrow> real list \<Rightarrow> error + (real \<times> real \<Rightarrow> npfloat)" where
  "right_triangle_griddata locs vals =
     (if length locs = 3 \<and> locs ! 0 = (0, 0) \<and> 0 < fst (locs ! 1) \<and> snd (locs ! 1) = 0
         \<and> locs ! 2 = (0, fst (locs ! 1))
         \<and> length vals = 3 \<and> vals ! 1 = vals ! 0 \<and> vals ! 2 = vals ! 0
      then Inr (\<lambda>(x, y). if 0 \<le> x \<and> 0 \<le> y \<and> x + y \<le> fst (locs ! 1) then Num (vals ! 0) else NaN)
      else Inl QhullError)"

fun the_num :: "npfloat \<Rightarrow> real" where
  "the_num (Num x) = x"
| "the_num _ = 0"

definition sk_scale :: "npfloat list \<Rightarrow> error + npfloat list" where
  "sk_scale xs =
     (if xs = [] \<or> (\<exists>v\<in>set xs. \<not> isfinite v) then Inl ValueError
      else (let ys = map the_num xs; mean = np_mean ys; sd = np_std ys;
                sd' = (if sd = 0 then 1 else sd)
            in Inr (map (\<lambda>y. Num ((y - mean) / sd')) ys)))"

definition example_library :: library where
  "example_library = \<lparr> griddata = right_triangle_griddata, scale = sk_scale, normal = (\<lambda>_ _. 0) \<rparr>"

definition triangle_locs :: "(real \<times> real) list" where
  "triangle_locs = [(0, 0), (1, 0), (0, 1)]"

definition constant_features :: feature_matrix where
  "constant_features = \<lparr> n_features = 3, samples = [[5, 5, 5]] \<rparr>"

section \<open>The training notebook: data cell and model\<close>





record 'x dataset =
  features :: "'x list"
  labels :: "int list"
  class_num :: nat
  labels_categorical :: "real list list"



subsection \<open>create_model\<close>

definition nb_filters :: "nat list" where "nb_filters = [16, 32, 32, 64, 128]"
definition kernel_size :: nat where "kernel_size = 3"
definition pool_size :: nat where "pool_size = 2"
definition stride_size :: nat where "stride_size = 2"
definition padding :: string where "padding = ''same''"
definition weight_decay :: real where "weight_decay = 1 / 1000000"
definition dense_layer_neuron_num :: nat where "dense_layer_neuron_num = 128"
definition epochs :: nat where "epochs = 30"
definition momentum :: real where "momentum = 8 / 10"

datatype layer =
    Conv1D nat nat string string "string option"
  | AveragePooling1D nat nat string
  | Flatten
  | BatchNormalization real
  | Dense nat "string option" "string option"
  | Dropout real
  | Activation string

datatype optimizer_obj =
    SGD real real real bool
  | Adam real
  | RMSprop real real

record model =
  input_shape :: "nat \<times> nat"
  layers :: "layer list"
  compiled :: "(string \<times> optimizer_obj \<times> string list) option"

definition create_model ::
  "nat \<Rightarrow> nat \<times> nat \<Rightarrow> string \<Rightarrow> string \<Rightarrow> real \<Rightarrow> string \<Rightarrow> real \<Rightarrow> model" where
  "create_model class_num0 X_shape init_mode activation dropout_rate optimizer learn_rate =
     \<lparr> input_shape = X_shape,
       layers =
         [ Conv1D (nb_filters ! 0) kernel_size padding activation None,
           AveragePooling1D pool_size stride_size padding,
           Conv1D (nb_filters ! 1) kernel_size padding activation (Some init_mode),
           AveragePooling1D pool_size stride_size padding,
           Conv1D (nb_filters ! 2) kernel_size padding activation (Some init_mode),
           AveragePooling1D pool_size stride_size padding,
           Flatten,
           BatchNormalization (1 / 1000),
           Dense dense_layer_neuron_num (Some init_mode) (Some activation),
           Dropout dropout_rate,
           Dense class_num0 None None,
           Activation ''softmax'' ],
       compiled =
         (if optimizer = ''SGD'' then
            Some (''binary_crossentropy'',
                  SGD (learn_rate / 10 ^ epochs) momentum weight_decay True, [''accuracy''])
          else if optimizer = ''Adam'' then
            Some (''categorical_crossentropy'', Adam learn_rate, [''accuracy''])
          else if optimizer = ''RMSprop'' then
            Some (''binary_crossentropy'', RMSprop learn_rate (1 / 10 ^ 7), [''accuracy''])
          else None) \<rparr>"

definition softmax :: "real list \<Rightarrow> real list" where
  "softmax z = map (\<lambda>x. exp x / sum_list (map exp z)) z"

definition final_activation :: "model \<Rightarrow> real list \<Rightarrow> real list" where
  "final_activation m z =
     (if layers m \<noteq> [] \<and> last (layers m) = Activation ''softmax'' then softmax z else z)"

definition loss_of :: "model \<Rightarrow> string option" where
  "loss_of m = map_option fst (compiled m)"

section \<open>The training notebook: cross-validation and metrics\<close>












record best_params =
  init_mode :: string
  learn_rate :: real
  optimizer :: string
  activation :: string
  dropout_rate :: real


















section \<open>EEG images: the main cell and the save cell\<close>

text \<open>
  The last two code cells of \<^verbatim>\<open>eeg_to_images.ipynb\<close>. A \<^verbatim>\<open>.mat\<close> file is
  a dictionary from names to values; a value is a two-dimensional array
  (\<open>Array\<close>), a tensor of images or something else. The \<open>world\<close> holds the files and
  says which paths can be opened for writing. The notebook's global variables are the
  record \<open>globals\<close>; its field \<open>trace\<close> lists, in order, what the cells read, printed
  and wrote (\<open>LoadMat\<close> for a call of \<^verbatim>\<open>loadmat\<close>, \<open>PickleDump\<close> for
  \<^verbatim>\<open>pickle.dump\<close>).

  \<open>main_cell\<close> loads the electrode positions, projects each row with \<open>azim_proj\<close>
  (\<open>project_row\<close>: a row with fewer than three entries raises
  \<^verbatim>\<open>IndexError\<close>), loads the feature tensors and runs the loop over the nine
  names (\<open>generate_loop\<close>): read \<^verbatim>\<open>matContent[matrix]\<close>, delete the entry, call
  \<open>gen_images\<close> with the grid size 128 and \<^verbatim>\<open>normalize=True\<close>, and store the
  result under \<^verbatim>\<open>matrix + '_img'\<close>. \<^verbatim>\<open>savemat\<close> is commented out in the
  main cell, which only prints; the file is written by the next cell (\<open>save_cell\<close>),
  whose \<^verbatim>\<open>try\<close> turns every failure into a printed line. \<open>notebook\<close> runs the
  two cells in order and stops at the first exception.

  \<open>example_world\<close> is a concrete world for the evaluated example: three electrodes
  on the axes, which project to the corners of a right triangle, and the same one-row
  feature matrix under each of the nine names.
\<close>

datatype matvalue =
    Array feature_matrix
  | Images "npfloat list list list list"
  | Other

type_synonym matdict = "string \<Rightarrow> matvalue option"

datatype event =
    Print string
  | PrintShape string nat nat
  | PrintImageSize nat nat nat nat
  | LoadMat string
  | PickleDump string

record world =
  files :: "string \<Rightarrow> matdict option"
  writable :: "string \<Rightarrow> bool"

record globals =
  locs_2d :: "(real \<times> real) list"
  matContent :: matdict
  trace :: "event list"

definition loadmat :: "world \<Rightarrow> string \<Rightarrow> error + matdict" where
  "loadmat w path = (case files w path of None \<Rightarrow> Inl FileNotFoundError | Some d \<Rightarrow> Inr d)"

definition chans_path :: string where
  "chans_path = ''../data/chans.mat''"

definition features_path :: string where
  "features_path = ''../data/spectral_feat_tensor_full_with_full_labels.mat''"

definition filename :: string where
  "filename = ''../data/spectral_feat_tensor_full_with_full_labels_images_128_new.pkl''"

definition n_grid :: nat where
  "n_grid = 128"

definition matrices :: "string list" where
  "matrices = [''full_feat'', ''pd_feat'', ''nc_feat'', ''E1_feat'', ''E2_feat'', ''E3_feat'',
               ''E4_feat'', ''E5_feat'', ''E6_feat'']"

definition project_row :: "real list \<Rightarrow> error + real \<times> real" where
  "project_row e = (if length e < 3 then Inl IndexError else Inr (azim_proj (e ! 0, e ! 1, e ! 2)))"

definition generation_events :: "matdict \<Rightarrow> (real \<times> real) list \<Rightarrow> string \<Rightarrow> event list" where
  "generation_events mc locs matrix =
     (case mc matrix of
        Some (Array feats) \<Rightarrow>
          [Print (''Generating images for '' @ matrix),
           PrintShape matrix (length (samples feats)) (n_features feats),
           PrintImageSize (length (samples feats)) (n_features feats div length locs) n_grid n_grid,
           Print [CHR 0x0A]]
      | _ \<Rightarrow> [])"

fun generate_loop ::
  "library \<Rightarrow> (real \<times> real) list \<Rightarrow> string list \<Rightarrow> matdict \<times> event list \<Rightarrow> error + (matdict \<times> event list)" where
  "generate_loop L locs [] st = Inr st"
| "generate_loop L locs (matrix # rest) (mc, tr) =
     (case mc matrix of
        None \<Rightarrow> Inl KeyError
      | Some (Array feats) \<Rightarrow>
          (case gen_images L locs feats n_grid True False False (1 / 10) 2 False of
             Inl e \<Rightarrow> Inl e
           | Inr images \<Rightarrow>
               generate_loop L locs rest
                 ((mc(matrix := None))(matrix @ ''_img'' \<mapsto> Images images),
                  tr @ generation_events mc locs matrix))
      | Some _ \<Rightarrow> Inl AttributeError)"

definition main_cell :: "library \<Rightarrow> world \<Rightarrow> error + globals" where
  "main_cell L w =
     (case loadmat w chans_path of
        Inl e \<Rightarrow> Inl e
      | Inr locs \<Rightarrow>
     (case locs ''x'' of
        None \<Rightarrow> Inl KeyError
      | Some (Array locs_3d) \<Rightarrow>
         (case mapM_err project_row (samples locs_3d) of
            Inl e \<Rightarrow> Inl e
          | Inr locs_2d0 \<Rightarrow>
         (case loadmat w features_path of
            Inl e \<Rightarrow> Inl e
          | Inr matContent0 \<Rightarrow>
         (case generate_loop L locs_2d0 matrices
                 (matContent0, [Print ''Loading data...'', LoadMat chans_path, LoadMat features_path]) of
            Inl e \<Rightarrow> Inl e
          | Inr (matContent1, tr) \<Rightarrow>
              Inr \<lparr> locs_2d = locs_2d0, matContent = matContent1,
                    trace = tr @ [Print ''saving...'', Print ''Save file done..''] \<rparr>)))
      | Some _ \<Rightarrow> Inl TypeError))"

definition save_cell :: "world \<Rightarrow> globals \<Rightarrow> world \<times> globals" where
  "save_cell w g =
     (if writable w filename
      then (w\<lparr> files := (files w)(filename \<mapsto> matContent g) \<rparr>,
            g\<lparr> trace := trace g @ [PickleDump filename] \<rparr>)
      else (w, g\<lparr> trace := trace g @ [Print ''Something went wrong''] \<rparr>))"

definition notebook :: "library \<Rightarrow> world \<Rightarrow> error + (world \<times> globals)" where
  "notebook L w = (case main_cell L w of Inl e \<Rightarrow> Inl e | Inr g \<Rightarrow> Inr (save_cell w g))"

definition example_chans :: matdict where
  "example_chans = [''x'' \<mapsto> Array \<lparr> n_features = 3, samples = [[0, 0, 1], [1, 0, 0], [0, 1, 0]] \<rparr>]"

definition example_features_file :: matdict where
  "example_features_file = (\<lambda>key. if key \<in> set matrices then Some (Array constant_features) else None)"

definition example_world :: world where
  "example_world =
     \<lparr> files = [chans_path \<mapsto> example_chans, features_path \<mapsto> example_features_file],
       writable = (\<lambda>path. True) \<rparr>"

definition projected_locs :: "(real \<times> real) list" where
  "projected_locs = [(0, 0), (pi / 2, 0), (0, pi / 2)]"

chapter \<open>Properties\<close>

section \<open>The projection\<close>





lemma azim_proj_unfold:
  "azim_proj (x, y, z) =
     ((pi / 2 - atan2 z (sqrt (x\<^sup>2 + y\<^sup>2))) * cos (atan2 y x),
      (pi / 2 - atan2 z (sqrt (x\<^sup>2 + y\<^sup>2))) * sin (atan2 y x))"
  by (simp add: azim_proj_def cart2sph_def pol2cart_def Let_def)








section \<open>gen_images\<close>

lemma mapM_err_Inr: "(\<And>x. x \<in> set xs \<Longrightarrow> f x = Inr (g x)) \<Longrightarrow> mapM_err f xs = Inr (map g xs)"
  by (induction xs) auto

lemma mapM_err_InrD:
  "mapM_err f xs = Inr ys \<Longrightarrow> length ys = length xs \<and> (\<forall>i<length xs. f (xs ! i) = Inr (ys ! i))"
proof (induction xs arbitrary: ys)
  case Nil
  then show ?case by simp
next
  case (Cons x xs)
  then obtain y ys' where y: "f x = Inr y" and ys': "mapM_err f xs = Inr ys'" and e: "ys = y # ys'"
    by (auto split: sum.splits)
  from Cons.IH [OF ys'] y e show ?case
    by (auto simp: nth_Cons split: nat.splits)
qed

lemma length_concat_uniform:
  "(\<forall>xs\<in>set xss. length xs = m) \<Longrightarrow> length (concat xss) = length xss * m"
  by (induction xss) auto

lemma nth_concat_uniform:
  "(\<forall>xs\<in>set xss. length xs = m) \<Longrightarrow> i < length xss \<Longrightarrow> j < m \<Longrightarrow> concat xss ! (i * m + j) = xss ! i ! j"
proof (induction xss arbitrary: i)
  case Nil
  then show ?case by simp
next
  case (Cons xs xss)
  show ?case
  proof (cases i)
    case 0
    with Cons.prems show ?thesis by (simp add: nth_append)
  next
    case (Suc i')
    have "concat (xs # xss) ! (i * m + j) = concat xss ! (i' * m + j)"
      using Cons.prems Suc by (simp add: nth_append)
    also have "\<dots> = xss ! i' ! j" using Cons.prems Suc by (intro Cons.IH) auto
    finally show ?thesis using Suc by simp
  qed
qed

lemma length_assign_masked: "length (assign_masked a vs) = length a"
  by (induction a vs rule: assign_masked.induct) (auto split: list.splits)

lemma assign_masked_nan: "i < length a \<Longrightarrow> isnan (a ! i) \<Longrightarrow> assign_masked a vs ! i = NaN"
proof (induction a vs arbitrary: i rule: assign_masked.induct)
  case (1 vs)
  then show ?case by simp
next
  case (2 a as vs)
  then show ?case
    by (cases i; cases a; cases vs) auto
qed

lemma isfinite_nan_to_num: "isfinite (nan_to_num v)"
  by (cases v) auto

lemma normalise_band_Inr:
  "normalise_band L nrm a = Inr b \<Longrightarrow> length b = length a \<and> (\<forall>v\<in>set b. isfinite v)"
  by (auto simp: normalise_band_def length_assign_masked isfinite_nan_to_num split: if_splits sum.splits)

lemma n_colors_exact:
  assumes "b \<noteq> 0" "a mod b = 0"
  shows "nat \<lfloor>real a / real b\<rfloor> = a div b"
proof -
  from assms(2) have "b dvd a" by (simp add: dvd_eq_mod_eq_0)
  then obtain q where q: "a = b * q" by (auto elim: dvdE)
  with assms(1) show ?thesis by simp
qed

lemma length_mgrid_axis: "length (mgrid_axis a b n) = n"
  by (simp add: mgrid_axis_def Let_def)

lemma interpolate_image_shape:
  "interpolate_image L locs vals gx gy = Inr img \<Longrightarrow>
     length img = length gx \<and> (\<forall>row\<in>set img. length row = length gy)"
  by (auto simp: interpolate_image_def split: sum.splits)

lemma interpolate_all_InrD:
  assumes "interpolate_all L locs feat nc ns gx gy = Inr interp"
  shows "length interp = ns"
    and "\<And>i. i < ns \<Longrightarrow> length (interp ! i) = nc"
    and "\<And>i c. i < ns \<Longrightarrow> c < nc \<Longrightarrow> interpolate_image L locs (feat ! c ! i) gx gy = Inr (interp ! i ! c)"
proof -
  from mapM_err_InrD [OF assms [unfolded interpolate_all_def]]
  have len: "length interp = ns"
    and row: "\<And>i. i < ns \<Longrightarrow>
        mapM_err (\<lambda>c. interpolate_image L locs (feat ! c ! i) gx gy) [0..<nc] = Inr (interp ! i)"
    by auto
  show "length interp = ns" by (rule len)
  show "\<And>i. i < ns \<Longrightarrow> length (interp ! i) = nc"
    using mapM_err_InrD [OF row] by simp
  show "\<And>i c. i < ns \<Longrightarrow> c < nc \<Longrightarrow> interpolate_image L locs (feat ! c ! i) gx gy = Inr (interp ! i ! c)"
    using mapM_err_InrD [OF row] by simp
qed

lemma interpolate_all_Inr:
  assumes "\<And>i c. i < ns \<Longrightarrow> c < nc \<Longrightarrow> interpolate_image L locs (feat ! c ! i) gx gy = Inr (img i c)"
  shows "interpolate_all L locs feat nc ns gx gy = Inr (map (\<lambda>i. map (\<lambda>c. img i c) [0..<nc]) [0..<ns])"
  unfolding interpolate_all_def
  by (intro mapM_err_Inr) (simp add: assms)

lemma index_bound:
  fixes i r q n ns :: nat
  assumes "i < ns" "r < n" "q < n"
  shows "(i * n + r) * n + q < ns * (n * n)"
proof -
  have "i * n + r < ns * n"
  proof -
    have "i * n + r < i * n + n" using assms(2) by simp
    also have "\<dots> = Suc i * n" by simp
    also have "\<dots> \<le> ns * n" using assms(1) by (intro mult_le_mono1) simp
    finally show ?thesis .
  qed
  then have "Suc (i * n + r) * n \<le> ns * n * n" by (intro mult_le_mono1) simp
  moreover have "(i * n + r) * n + q < Suc (i * n + r) * n" using assms(3) by simp
  ultimately show ?thesis by (simp add: mult.assoc)
qed

lemma flat_band_entries:
  assumes shape: "\<And>i. i < ns \<Longrightarrow> length (interp ! i ! c) = n \<and> (\<forall>row\<in>set (interp ! i ! c). length row = n)"
  shows "length (flat_band interp ns c) = ns * (n * n)"
    and "\<And>i r q. i < ns \<Longrightarrow> r < n \<Longrightarrow> q < n \<Longrightarrow>
           flat_band interp ns c ! ((i * n + r) * n + q) = interp ! i ! c ! r ! q"
proof -
  let ?imgs = "map (\<lambda>i. concat (interp ! i ! c)) [0..<ns]"
  have one: "length (concat (interp ! i ! c)) = n * n" if "i < ns" for i
    using shape [OF that] length_concat_uniform [of "interp ! i ! c" n] by simp
  have inner: "\<forall>xs\<in>set ?imgs. length xs = n * n"
    using one by auto
  show "length (flat_band interp ns c) = ns * (n * n)"
    using length_concat_uniform [OF inner] by (simp add: flat_band_def)
  fix i r q assume b: "i < ns" "r < n" "q < n"
  have rq: "r * n + q < n * n"
    using index_bound [of 0 1 r n q] b by simp
  have idx: "(i * n + r) * n + q = i * (n * n) + (r * n + q)"
    by (simp add: algebra_simps)
  have "flat_band interp ns c ! ((i * n + r) * n + q) = concat ?imgs ! (i * (n * n) + (r * n + q))"
    unfolding flat_band_def idx ..
  also have "\<dots> = ?imgs ! i ! (r * n + q)"
    using b rq by (intro nth_concat_uniform [OF inner]) simp_all
  also have "\<dots> = concat (interp ! i ! c) ! (r * n + q)"
    using b by simp
  also have "\<dots> = interp ! i ! c ! r ! q"
    using shape [OF b(1)] b by (intro nth_concat_uniform) auto
  finally show "flat_band interp ns c ! ((i * n + r) * n + q) = interp ! i ! c ! r ! q" .
qed

lemma swapaxes_tensor_entries:
  "length (swapaxes_tensor ti nc ns n) = ns"
  "i < ns \<Longrightarrow> length (swapaxes_tensor ti nc ns n ! i) = nc"
  "i < ns \<Longrightarrow> c < nc \<Longrightarrow> length (swapaxes_tensor ti nc ns n ! i ! c) = n"
  "i < ns \<Longrightarrow> c < nc \<Longrightarrow> r < n \<Longrightarrow> length (swapaxes_tensor ti nc ns n ! i ! c ! r) = n"
  "i < ns \<Longrightarrow> c < nc \<Longrightarrow> r < n \<Longrightarrow> q < n \<Longrightarrow>
     swapaxes_tensor ti nc ns n ! i ! c ! r ! q = ti ! c ! ((i * n + r) * n + q)"
  by (simp_all add: swapaxes_tensor_def)

lemma gen_images_plain:
  "gen_images L locs F n nrm False pca sm ncmp False =
     (if locs = [] then Inl ZeroDivisionError
      else if n_features F mod length locs \<noteq> 0 then Inl AssertionError
      else
        (case interpolate_all L locs
                (split_bands F (length locs) (n_features F div length locs))
                (n_features F div length locs) (length (samples F))
                (mgrid_axis (Min (set (map fst locs))) (Max (set (map fst locs))) n)
                (mgrid_axis (Min (set (map snd locs))) (Max (set (map snd locs))) n) of
           Inl e \<Rightarrow> Inl e
         | Inr interp \<Rightarrow>
        (case mapM_err (\<lambda>c. normalise_band L nrm (flat_band interp (length (samples F)) c))
                [0..<n_features F div length locs] of
           Inl e \<Rightarrow> Inl e
         | Inr temp_interp \<Rightarrow>
             if n_features F div length locs = 0 then Inl AxisError
             else Inr (swapaxes_tensor temp_interp (n_features F div length locs)
                         (length (samples F)) n))))"
  by (simp add: gen_images_def Let_def n_colors_exact)

lemma split_bands_nth:
  "c < nc \<Longrightarrow> i < length (samples F) \<Longrightarrow>
     split_bands F nE nc ! c ! i = slice (c * nE) (nE * (c + 1)) (samples F ! i)"
  by (simp add: split_bands_def)

lemma normalise_band_nan:
  "normalise_band L nrm a = Inr b \<Longrightarrow> i < length a \<Longrightarrow> isnan (a ! i) \<Longrightarrow> b ! i = Num 0"
  by (cases "a ! i")
     (auto simp: normalise_band_def length_assign_masked assign_masked_nan split: if_splits sum.splits)

lemma gen_images_InrD:
  assumes "gen_images L locs F n nrm False pca sm ncmp False = Inr T"
  obtains interp ti where
    "locs \<noteq> []" and "n_features F mod length locs = 0" and "0 < n_features F div length locs"
    and "interpolate_all L locs
           (split_bands F (length locs) (n_features F div length locs))
           (n_features F div length locs) (length (samples F))
           (mgrid_axis (Min (set (map fst locs))) (Max (set (map fst locs))) n)
           (mgrid_axis (Min (set (map snd locs))) (Max (set (map snd locs))) n) = Inr interp"
    and "mapM_err (\<lambda>c. normalise_band L nrm (flat_band interp (length (samples F)) c))
           [0..<n_features F div length locs] = Inr ti"
    and "T = swapaxes_tensor ti (n_features F div length locs) (length (samples F)) n"
  using assms unfolding gen_images_plain
  by (auto split: if_splits sum.splits)

lemma gen_images_stage_shapes:
  assumes ia: "interpolate_all L locs feat nc ns (mgrid_axis a b n) (mgrid_axis a' b' n) = Inr interp"
    and nb: "mapM_err (\<lambda>c. normalise_band L nrm (flat_band interp ns c)) [0..<nc] = Inr ti"
    and c: "c < nc"
  shows "\<And>i. i < ns \<Longrightarrow> length (interp ! i ! c) = n \<and> (\<forall>row\<in>set (interp ! i ! c). length row = n)"
    and "normalise_band L nrm (flat_band interp ns c) = Inr (ti ! c)"
    and "length (ti ! c) = ns * (n * n)"
    and "\<forall>v\<in>set (ti ! c). isfinite v"
proof -
  show sh: "length (interp ! i ! c) = n \<and> (\<forall>row\<in>set (interp ! i ! c). length row = n)" if "i < ns" for i
    using interpolate_image_shape [OF interpolate_all_InrD(3) [OF ia that c]]
    by (simp add: length_mgrid_axis)
  show n: "normalise_band L nrm (flat_band interp ns c) = Inr (ti ! c)"
    using mapM_err_InrD [OF nb] c by simp
  show "length (ti ! c) = ns * (n * n)"
    using normalise_band_Inr [OF n] flat_band_entries(1) [of ns interp c n] sh by simp
  show "\<forall>v\<in>set (ti ! c). isfinite v"
    using normalise_band_Inr [OF n] by simp
qed

text \<open>
  Claim C7. With \<^verbatim>\<open>augment=False\<close> and \<^verbatim>\<open>edgeless=False\<close>, whatever
  \<^verbatim>\<open>normalize\<close> is, every entry of a tensor that \<open>gen_images\<close> returns is a
  finite number, and every pixel at which the interpolation gave NaN is \<open>0\<close> in the
  returned tensor.
\<close>

theorem gen_images_finite:
  assumes "gen_images L locs F n nrm False pca sm ncmp False = Inr T"
  shows "(\<forall>sample\<in>set T. \<forall>band\<in>set sample. \<forall>row\<in>set band. \<forall>v\<in>set row. isfinite v)
    \<and> (\<forall>i<length (samples F). \<forall>c<n_features F div length locs. \<forall>img.
          interpolate_image L locs
            (slice (c * length locs) (length locs * (c + 1)) (samples F ! i))
            (mgrid_axis (Min (set (map fst locs))) (Max (set (map fst locs))) n)
            (mgrid_axis (Min (set (map snd locs))) (Max (set (map snd locs))) n) = Inr img \<longrightarrow>
          (\<forall>r<n. \<forall>q<n. isnan (img ! r ! q) \<longrightarrow> T ! i ! c ! r ! q = Num 0))"
proof -
  define nc where "nc = n_features F div length locs"
  define ns where "ns = length (samples F)"
  from assms obtain interp ti where
    ia: "interpolate_all L locs (split_bands F (length locs) nc) nc ns
           (mgrid_axis (Min (set (map fst locs))) (Max (set (map fst locs))) n)
           (mgrid_axis (Min (set (map snd locs))) (Max (set (map snd locs))) n) = Inr interp"
    and nb: "mapM_err (\<lambda>c. normalise_band L nrm (flat_band interp ns c)) [0..<nc] = Inr ti"
    and T: "T = swapaxes_tensor ti nc ns n"
    unfolding nc_def ns_def by (rule gen_images_InrD)
  have fin: "isfinite (ti ! c ! ((i * n + r) * n + q))" if "i < ns" "c < nc" "r < n" "q < n" for i c r q
  proof -
    have "(i * n + r) * n + q < length (ti ! c)"
      using gen_images_stage_shapes(3) [OF ia nb that(2)] index_bound [OF that(1,3,4)] by simp
    then have "ti ! c ! ((i * n + r) * n + q) \<in> set (ti ! c)" by simp
    then show ?thesis using gen_images_stage_shapes(4) [OF ia nb that(2)] by blast
  qed
  have first: "\<forall>sample\<in>set T. \<forall>band\<in>set sample. \<forall>row\<in>set band. \<forall>v\<in>set row. isfinite v"
    unfolding T swapaxes_tensor_def using fin by auto
  have second: "T ! i ! c ! r ! q = Num 0"
    if b: "i < ns" "c < nc" "r < n" "q < n"
      and img: "interpolate_image L locs
            (slice (c * length locs) (length locs * (c + 1)) (samples F ! i))
            (mgrid_axis (Min (set (map fst locs))) (Max (set (map fst locs))) n)
            (mgrid_axis (Min (set (map snd locs))) (Max (set (map snd locs))) n) = Inr img"
      and nan: "isnan (img ! r ! q)"
    for i c r q img
  proof -
    have "interp ! i ! c = img"
      using interpolate_all_InrD(3) [OF ia b(1,2)] img b
      by (simp add: split_bands_nth ns_def)
    then have raw: "flat_band interp ns c ! ((i * n + r) * n + q) = img ! r ! q"
      using flat_band_entries(2) [of ns interp c n i r q] gen_images_stage_shapes(1) [OF ia nb b(2)] b
      by simp
    have len: "(i * n + r) * n + q < length (flat_band interp ns c)"
      using flat_band_entries(1) [of ns interp c n] gen_images_stage_shapes(1) [OF ia nb b(2)]
        index_bound [OF b(1,3,4)] by simp
    have "ti ! c ! ((i * n + r) * n + q) = Num 0"
      using normalise_band_nan [OF gen_images_stage_shapes(2) [OF ia nb b(2)] len] raw nan by simp
    then show ?thesis
      using b by (simp add: T swapaxes_tensor_entries)
  qed
  from first second show ?thesis
    unfolding nc_def ns_def by blast
qed



lemma mapM_err_total:
  "(\<And>x. x \<in> set xs \<Longrightarrow> \<exists>y. f x = Inr y) \<Longrightarrow> \<exists>ys. mapM_err f xs = Inr ys"
proof (induction xs)
  case Nil
  then show ?case by simp
next
  case (Cons x xs)
  then obtain y where "f x = Inr y" by auto
  moreover from Cons obtain ys where "mapM_err f xs = Inr ys" by auto
  ultimately show ?case by simp
qed


lemma mgrid_axis_span:
  assumes "1 < n"
  shows "mgrid_axis a b n ! 0 = a" and "mgrid_axis a b n ! (n - 1) = b"
proof -
  from assms show "mgrid_axis a b n ! 0 = a"
    by (simp add: mgrid_axis_def Let_def)
  have "real (n - 1) = real n - 1" using assms by (simp add: of_nat_diff)
  moreover have "real n - 1 \<noteq> 0" using assms by simp
  ultimately show "mgrid_axis a b n ! (n - 1) = b"
    using assms by (simp add: mgrid_axis_def Let_def)
qed

lemma normalise_band_False: "normalise_band L False a = Inr (map nan_to_num a)"
  by (simp add: normalise_band_def)

lemma normalise_band_TrueD:
  "normalise_band L True a = Inr b \<Longrightarrow>
     \<exists>s. scale L (filter (\<lambda>v. \<not> isnan v) a) = Inr s
        \<and> length s = length (filter (\<lambda>v. \<not> isnan v) a)
        \<and> b = map nan_to_num (assign_masked a s)"
  by (auto simp: normalise_band_def split: sum.splits if_splits)

lemma flat_band_of_images:
  "c < nc \<Longrightarrow>
     flat_band (map (\<lambda>i. map (\<lambda>c. img i c) [0..<nc]) [0..<ns]) ns c
       = concat (map (\<lambda>i. concat (img i c)) [0..<ns])"
proof -
  assume c: "c < nc"
  have "map (\<lambda>i. concat (map (\<lambda>i. map (\<lambda>c. img i c) [0..<nc]) [0..<ns] ! i ! c)) [0..<ns]
      = map (\<lambda>i. concat (img i c)) [0..<ns]"
    by (rule map_cong) (simp_all add: c)
  then show ?thesis by (simp only: flat_band_def)
qed

text \<open>
  Claim C2, as amended. Let there be at least one electrode and \<open>k \<ge> 1\<close> bands
  (\<open>n_features = k * n_electrodes\<close>), \<^verbatim>\<open>augment=False\<close> and
  \<^verbatim>\<open>edgeless=False\<close>, and let \<open>img i c\<close> be the cubic interpolation of the
  values of band \<open>c\<close> of sample \<open>i\<close> over the \<open>n\<close> by \<open>n\<close> grid, which spans the
  bounding box of the electrode locations. Then, with \<^verbatim>\<open>normalize=False\<close>,
  \<open>gen_images\<close> returns; and every tensor it returns, for either value of
  \<^verbatim>\<open>normalize\<close>, has the shape \<open>[n_samples, k, n, n]\<close>. With
  \<^verbatim>\<open>normalize=False\<close> its entry \<open>[i, c, r, q]\<close> is \<open>img i c\<close> at \<open>[r, q]\<close>
  with NaN replaced by \<open>0\<close> (\<^verbatim>\<open>nan_to_num\<close>); with \<^verbatim>\<open>normalize=True\<close>
  the values of band \<open>c\<close> that are not NaN, over all samples, are first replaced by
  what \<^verbatim>\<open>scale\<close> makes of them.
\<close>

theorem gen_images_shape_values:
  fixes L :: library and locs :: "(real \<times> real) list" and F :: feature_matrix and n k :: nat
    and img :: "nat \<Rightarrow> nat \<Rightarrow> npfloat list list"
  defines "grid_x \<equiv> mgrid_axis (Min (set (map fst locs))) (Max (set (map fst locs))) n"
    and "grid_y \<equiv> mgrid_axis (Min (set (map snd locs))) (Max (set (map snd locs))) n"
    and "ns \<equiv> length (samples F)"
  defines "raw \<equiv> (\<lambda>c. concat (map (\<lambda>i. concat (img i c)) [0..<ns]))"
  assumes locs: "locs \<noteq> []" and k: "n_features F = k * length locs" "0 < k"
    and img: "\<And>i c. i < ns \<Longrightarrow> c < k \<Longrightarrow>
        interpolate_image L locs (slice (c * length locs) (length locs * (c + 1)) (samples F ! i))
          grid_x grid_y = Inr (img i c)"
  shows "(1 < n \<longrightarrow> grid_x ! 0 = Min (set (map fst locs)) \<and> grid_x ! (n - 1) = Max (set (map fst locs))
                \<and> grid_y ! 0 = Min (set (map snd locs)) \<and> grid_y ! (n - 1) = Max (set (map snd locs)))
    \<and> (\<exists>T. gen_images L locs F n False False pca sm ncmp False = Inr T)
    \<and> (\<forall>nrm T. gen_images L locs F n nrm False pca sm ncmp False = Inr T \<longrightarrow>
          length T = ns
          \<and> (\<forall>i<ns. length (T ! i) = k
               \<and> (\<forall>c<k. length (T ! i ! c) = n
                    \<and> (\<forall>r<n. length (T ! i ! c ! r) = n
                         \<and> (\<forall>q<n.
                              (\<not> nrm \<longrightarrow> T ! i ! c ! r ! q = nan_to_num (img i c ! r ! q))
                            \<and> (nrm \<longrightarrow> (\<exists>s. scale L (filter (\<lambda>v. \<not> isnan v) (raw c)) = Inr s
                                  \<and> T ! i ! c ! r ! q
                                      = nan_to_num (assign_masked (raw c) s ! ((i * n + r) * n + q)))))))))"
proof -
  have nc: "n_features F div length locs = k" and md: "n_features F mod length locs = 0"
    using locs k by simp_all
  let ?interp = "map (\<lambda>i. map (\<lambda>c. img i c) [0..<k]) [0..<ns]"
  have ia: "interpolate_all L locs (split_bands F (length locs) k) k ns grid_x grid_y = Inr ?interp"
  proof (rule interpolate_all_Inr)
    fix i c assume b: "i < ns" "c < k"
    then have "split_bands F (length locs) k ! c ! i
        = slice (c * length locs) (length locs * (c + 1)) (samples F ! i)"
      by (simp only: split_bands_nth ns_def)
    with img [OF b]
    show "interpolate_image L locs (split_bands F (length locs) k ! c ! i) grid_x grid_y = Inr (img i c)"
      by (simp only:)
  qed
  have shape: "length (img i c) = n \<and> (\<forall>row\<in>set (img i c). length row = n)" if "i < ns" "c < k" for i c
    using interpolate_image_shape [OF img [OF that]] by (simp add: grid_x_def grid_y_def length_mgrid_axis)
  have flat: "flat_band ?interp ns c = raw c" if "c < k" for c
    using that by (simp add: flat_band_of_images raw_def)
  have raw_nth: "raw c ! ((i * n + r) * n + q) = img i c ! r ! q"
    and raw_len: "(i * n + r) * n + q < length (raw c)"
    if b: "i < ns" "c < k" "r < n" "q < n" for i c r q
  proof -
    have sh: "\<And>i. i < ns \<Longrightarrow> length (?interp ! i ! c) = n \<and> (\<forall>row\<in>set (?interp ! i ! c). length row = n)"
      using shape b(2) by simp
    show "raw c ! ((i * n + r) * n + q) = img i c ! r ! q"
      using flat_band_entries(2) [of ns ?interp c n i r q, OF sh] b flat by simp
    show "(i * n + r) * n + q < length (raw c)"
      using flat_band_entries(1) [of ns ?interp c n, OF sh] index_bound [OF b(1,3,4)] flat b(2) by simp
  qed
  have span: "1 < n \<longrightarrow> grid_x ! 0 = Min (set (map fst locs)) \<and> grid_x ! (n - 1) = Max (set (map fst locs))
                \<and> grid_y ! 0 = Min (set (map snd locs)) \<and> grid_y ! (n - 1) = Max (set (map snd locs))"
    unfolding grid_x_def grid_y_def using mgrid_axis_span by blast
  have gi: "gen_images L locs F n nrm False pca sm ncmp False =
      (case mapM_err (\<lambda>c. normalise_band L nrm (flat_band ?interp ns c)) [0..<k] of
         Inl e \<Rightarrow> Inl e
       | Inr ti \<Rightarrow> Inr (swapaxes_tensor ti k ns n))" for nrm
    using locs k(2) ia unfolding gen_images_plain nc md
    by (simp add: grid_x_def grid_y_def ns_def split: sum.splits)
  have returns: "\<exists>T. gen_images L locs F n False False pca sm ncmp False = Inr T"
    unfolding gi
    using mapM_err_Inr [of "[0..<k]" "\<lambda>c. normalise_band L False (flat_band ?interp ns c)"
        "\<lambda>c. map nan_to_num (flat_band ?interp ns c)"]
    by (simp add: normalise_band_False)
  have entries: "length T = ns
          \<and> (\<forall>i<ns. length (T ! i) = k
               \<and> (\<forall>c<k. length (T ! i ! c) = n
                    \<and> (\<forall>r<n. length (T ! i ! c ! r) = n
                         \<and> (\<forall>q<n.
                              (\<not> nrm \<longrightarrow> T ! i ! c ! r ! q = nan_to_num (img i c ! r ! q))
                            \<and> (nrm \<longrightarrow> (\<exists>s. scale L (filter (\<lambda>v. \<not> isnan v) (raw c)) = Inr s
                                  \<and> T ! i ! c ! r ! q
                                      = nan_to_num (assign_masked (raw c) s ! ((i * n + r) * n + q))))))))"
    if res: "gen_images L locs F n nrm False pca sm ncmp False = Inr T" for nrm T
  proof -
    from res obtain ti where
      nb: "mapM_err (\<lambda>c. normalise_band L nrm (flat_band ?interp ns c)) [0..<k] = Inr ti"
      and T: "T = swapaxes_tensor ti k ns n"
      unfolding gi by (auto split: sum.splits)
    have band: "normalise_band L nrm (raw c) = Inr (ti ! c)" if "c < k" for c
      using mapM_err_InrD [OF nb] that flat by simp
    have entry: "(\<not> nrm \<longrightarrow> T ! i ! c ! r ! q = nan_to_num (img i c ! r ! q))
        \<and> (nrm \<longrightarrow> (\<exists>s. scale L (filter (\<lambda>v. \<not> isnan v) (raw c)) = Inr s
              \<and> T ! i ! c ! r ! q = nan_to_num (assign_masked (raw c) s ! ((i * n + r) * n + q))))"
      if b: "i < ns" "c < k" "r < n" "q < n" for i c r q
    proof (cases nrm)
      case False
      with band [OF b(2)] have "ti ! c = map nan_to_num (raw c)"
        by (simp add: normalise_band_False)
      then show ?thesis
        using False b raw_nth [OF b] raw_len [OF b] by (simp add: T swapaxes_tensor_entries)
    next
      case True
      with band [OF b(2)] have "normalise_band L True (raw c) = Inr (ti ! c)" by simp
      from normalise_band_TrueD [OF this] obtain s where
        s: "scale L (filter (\<lambda>v. \<not> isnan v) (raw c)) = Inr s"
        and ti: "ti ! c = map nan_to_num (assign_masked (raw c) s)"
        by blast
      have "ti ! c ! ((i * n + r) * n + q) = nan_to_num (assign_masked (raw c) s ! ((i * n + r) * n + q))"
        using raw_len [OF b] by (simp add: ti length_assign_masked)
      then show ?thesis
        using True s b by (simp add: T swapaxes_tensor_entries)
    qed
    show ?thesis
      using entry by (simp add: T swapaxes_tensor_entries)
  qed
  from span returns entries show ?thesis by blast
qed

lemma upt_0_1: "[0..<1] = [0]" by (simp add: upt_rec)
lemma upt_0_2: "[0..<2] = [0, Suc 0]" by (simp add: upt_rec)

lemma triangle_bounds:
  "Min (set (map fst triangle_locs)) = 0" "Max (set (map fst triangle_locs)) = 1"
  "Min (set (map snd triangle_locs)) = 0" "Max (set (map snd triangle_locs)) = 1"
  by (simp_all add: triangle_locs_def)

lemma mgrid_axis_0_1_2: "mgrid_axis 0 1 2 = [0, 1]"
  by (simp add: mgrid_axis_def upt_0_2)

lemma triangle_image:
  "interpolate_image example_library triangle_locs [5, 5, 5] [0, 1] [0, 1]
     = Inr [[Num 5, Num 5], [Num 5, NaN]]"
  by (simp add: interpolate_image_def example_library_def right_triangle_griddata_def triangle_locs_def)

lemma sk_scale_555: "sk_scale [Num 5, Num 5, Num 5] = Inr [Num 0, Num 0, Num 0]"
  by (simp add: sk_scale_def np_mean_def np_std_def)

lemma triangle_sizes:
  "triangle_locs \<noteq> []" "length triangle_locs = 3"
  "n_features constant_features = 3" "length (samples constant_features) = 1"
  by (simp_all add: triangle_locs_def constant_features_def)

lemma triangle_interpolate_all:
  "interpolate_all example_library triangle_locs (split_bands constant_features 3 (Suc 0))
      (Suc 0) (Suc 0) [0, 1] [0, 1]
     = Inr [[[[Num 5, Num 5], [Num 5, NaN]]]]"
  by (simp add: interpolate_all_def split_bands_def constant_features_def slice_def upt_0_1
      triangle_image)

lemma triangle_flat_band:
  "flat_band [[[[Num 5, Num 5], [Num 5, NaN]]]] (Suc 0) 0 = [Num 5, Num 5, Num 5, NaN]"
  by (simp add: flat_band_def upt_0_1)

lemma gen_images_triangle_raw:
  "gen_images example_library triangle_locs constant_features 2 False False False (1 / 10) 2 False
     = Inr [[[[Num 5, Num 5], [Num 5, Num 0]]]]"
  unfolding gen_images_plain triangle_sizes triangle_bounds mgrid_axis_0_1_2
  by (simp add: triangle_sizes triangle_interpolate_all upt_0_1 upt_0_2 triangle_flat_band
      normalise_band_def swapaxes_tensor_def)

lemma gen_images_triangle_scaled:
  "gen_images example_library triangle_locs constant_features 2 True False False (1 / 10) 2 False
     = Inr [[[[Num 0, Num 0], [Num 0, Num 0]]]]"
  unfolding gen_images_plain triangle_sizes triangle_bounds mgrid_axis_0_1_2
  by (simp add: triangle_sizes triangle_interpolate_all upt_0_1 upt_0_2 triangle_flat_band
      normalise_band_def)
    (simp add: example_library_def sk_scale_555 triangle_flat_band swapaxes_tensor_def upt_0_1 upt_0_2)

theorem gen_images_finite_witness:
  "gen_images example_library triangle_locs constant_features 2 True False False (1 / 10) 2 False
     = Inr [[[[Num 0, Num 0], [Num 0, Num 0]]]]
   \<and> list_all (list_all (list_all (list_all isfinite))) [[[[Num 0, Num 0], [Num 0, Num 0]]]]
   \<and> interpolate_image example_library triangle_locs
         (slice (0 * length triangle_locs) (length triangle_locs * (0 + 1)) (samples constant_features ! 0))
         (mgrid_axis (Min (set (map fst triangle_locs))) (Max (set (map fst triangle_locs))) 2)
         (mgrid_axis (Min (set (map snd triangle_locs))) (Max (set (map snd triangle_locs))) 2)
       = Inr [[Num 5, Num 5], [Num 5, NaN]]
   \<and> isnan ([[Num 5, Num 5], [Num 5, NaN]] ! 1 ! 1)
   \<and> [[[[Num 0, Num 0], [Num 0, Num 0 :: npfloat]]]] ! 0 ! 0 ! 1 ! 1 = Num 0"
proof -
  have img: "interpolate_image example_library triangle_locs
         (slice (0 * length triangle_locs) (length triangle_locs * (0 + 1)) (samples constant_features ! 0))
         (mgrid_axis (Min (set (map fst triangle_locs))) (Max (set (map fst triangle_locs))) 2)
         (mgrid_axis (Min (set (map snd triangle_locs))) (Max (set (map snd triangle_locs))) 2)
       = Inr [[Num 5, Num 5], [Num 5, NaN]]"
    unfolding triangle_bounds mgrid_axis_0_1_2 triangle_sizes
    by (simp add: constant_features_def slice_def triangle_image)
  from gen_images_finite [OF gen_images_triangle_scaled]
  have "\<forall>sample\<in>set [[[[Num 0, Num 0], [Num 0, Num 0]]]].
          \<forall>band\<in>set sample. \<forall>row\<in>set band. \<forall>v\<in>set row. isfinite v"
    by (rule conjunct1)
  then have "list_all (list_all (list_all (list_all isfinite))) [[[[Num 0, Num 0], [Num 0, Num 0]]]]"
    by (simp add: list_all_iff)
  with gen_images_triangle_scaled img show ?thesis by simp
qed



text \<open>
  Claim C2 as stated fails: for three electrodes at the corners of the unit triangle
  with the common value \<open>5\<close>, the interpolation over the 2 by 2 grid is NaN at the
  corner \<open>(1, 1)\<close>, and the band that \<open>gen_images\<close> returns is not the interpolation:
  it has \<open>0\<close> there with \<^verbatim>\<open>normalize=False\<close>, and it is standardised to \<open>0\<close>
  everywhere with \<^verbatim>\<open>normalize=True\<close>.
\<close>

theorem gen_images_band_counterexample:
  "interpolate_image example_library triangle_locs [5, 5, 5] (mgrid_axis 0 1 2) (mgrid_axis 0 1 2)
     = Inr [[Num 5, Num 5], [Num 5, NaN]]
   \<and> gen_images example_library triangle_locs constant_features 2 False False False (1 / 10) 2 False
     = Inr [[[[Num 5, Num 5], [Num 5, Num 0]]]]
   \<and> gen_images example_library triangle_locs constant_features 2 True False False (1 / 10) 2 False
     = Inr [[[[Num 0, Num 0], [Num 0, Num 0]]]]"
  using triangle_image gen_images_triangle_raw gen_images_triangle_scaled
  by (simp add: mgrid_axis_0_1_2)

theorem gen_images_shape_values_witness:
  "triangle_locs \<noteq> [] \<and> n_features constant_features = 1 * length triangle_locs \<and> (0::nat) < 1
   \<and> interpolate_image example_library triangle_locs
         (slice (0 * length triangle_locs) (length triangle_locs * (0 + 1)) (samples constant_features ! 0))
         (mgrid_axis (Min (set (map fst triangle_locs))) (Max (set (map fst triangle_locs))) 2)
         (mgrid_axis (Min (set (map snd triangle_locs))) (Max (set (map snd triangle_locs))) 2)
       = Inr [[Num 5, Num 5], [Num 5, NaN]]
   \<and> mgrid_axis (Min (set (map fst triangle_locs))) (Max (set (map fst triangle_locs))) 2 ! 0 = 0
   \<and> mgrid_axis (Min (set (map fst triangle_locs))) (Max (set (map fst triangle_locs))) 2 ! (2 - 1) = 1
   \<and> (\<exists>T. gen_images example_library triangle_locs constant_features 2 False False False (1 / 10) 2 False
            = Inr T
          \<and> length T = 1 \<and> length (T ! 0) = 1 \<and> length (T ! 0 ! 0) = 2 \<and> length (T ! 0 ! 0 ! 1) = 2
          \<and> T ! 0 ! 0 ! 1 ! 1 = Num 0 \<and> T ! 0 ! 0 ! 0 ! 0 = Num 5)"
proof -
  have img: "interpolate_image example_library triangle_locs
         (slice (c * length triangle_locs) (length triangle_locs * (c + 1)) (samples constant_features ! i))
         (mgrid_axis (Min (set (map fst triangle_locs))) (Max (set (map fst triangle_locs))) 2)
         (mgrid_axis (Min (set (map snd triangle_locs))) (Max (set (map snd triangle_locs))) 2)
       = Inr [[Num 5, Num 5], [Num 5, NaN]]"
    if "i < length (samples constant_features)" "c < 1" for i c
    using that unfolding triangle_bounds mgrid_axis_0_1_2 triangle_sizes
    by (simp add: constant_features_def slice_def triangle_image)
  note inst = gen_images_shape_values
    [of triangle_locs constant_features 1 example_library 2 "\<lambda>i c. [[Num 5, Num 5], [Num 5, NaN]]"
      False "1 / 10" 2, OF triangle_sizes(1) _ _ img]
  have main: "(1 < (2::nat) \<longrightarrow>
        mgrid_axis (Min (set (map fst triangle_locs))) (Max (set (map fst triangle_locs))) 2 ! 0
          = Min (set (map fst triangle_locs))
      \<and> mgrid_axis (Min (set (map fst triangle_locs))) (Max (set (map fst triangle_locs))) 2 ! (2 - 1)
          = Max (set (map fst triangle_locs))
      \<and> mgrid_axis (Min (set (map snd triangle_locs))) (Max (set (map snd triangle_locs))) 2 ! 0
          = Min (set (map snd triangle_locs))
      \<and> mgrid_axis (Min (set (map snd triangle_locs))) (Max (set (map snd triangle_locs))) 2 ! (2 - 1)
          = Max (set (map snd triangle_locs)))
    \<and> (\<exists>T. gen_images example_library triangle_locs constant_features 2 False False False (1 / 10) 2 False
            = Inr T)
    \<and> (\<forall>nrm T. gen_images example_library triangle_locs constant_features 2 nrm False False (1 / 10) 2 False
            = Inr T \<longrightarrow>
          length T = length (samples constant_features)
          \<and> (\<forall>i<length (samples constant_features). length (T ! i) = 1
               \<and> (\<forall>c<1. length (T ! i ! c) = 2
                    \<and> (\<forall>r<2. length (T ! i ! c ! r) = 2
                         \<and> (\<forall>q<2.
                              (\<not> nrm \<longrightarrow> T ! i ! c ! r ! q = nan_to_num ([[Num 5, Num 5], [Num 5, NaN]] ! r ! q))
                            \<and> (nrm \<longrightarrow> (\<exists>s. scale example_library (filter (\<lambda>v. \<not> isnan v)
                                    (concat (map (\<lambda>i. concat [[Num 5, Num 5], [Num 5, NaN]])
                                       [0..<length (samples constant_features)]))) = Inr s
                                  \<and> T ! i ! c ! r ! q
                                      = nan_to_num (assign_masked
                                          (concat (map (\<lambda>i. concat [[Num 5, Num 5], [Num 5, NaN]])
                                             [0..<length (samples constant_features)])) s
                                          ! ((i * 2 + r) * 2 + q)))))))))"
    by (rule inst) (simp_all add: triangle_sizes)
  then obtain T where
    T: "gen_images example_library triangle_locs constant_features 2 False False False (1 / 10) 2 False = Inr T"
    by blast
  with main have sh: "length T = length (samples constant_features)
          \<and> (\<forall>i<length (samples constant_features). length (T ! i) = 1
               \<and> (\<forall>c<1. length (T ! i ! c) = 2
                    \<and> (\<forall>r<2. length (T ! i ! c ! r) = 2
                         \<and> (\<forall>q<2. T ! i ! c ! r ! q = nan_to_num ([[Num 5, Num 5], [Num 5, NaN]] ! r ! q)))))"
    by blast
  have props: "length T = 1 \<and> length (T ! 0) = 1 \<and> length (T ! 0 ! 0) = 2 \<and> length (T ! 0 ! 0 ! 1) = 2
          \<and> T ! 0 ! 0 ! 1 ! 1 = Num 0 \<and> T ! 0 ! 0 ! 0 ! 0 = Num 5"
    using sh by (simp add: triangle_sizes)
  have g: "mgrid_axis (Min (set (map fst triangle_locs))) (Max (set (map fst triangle_locs))) 2 ! 0 = 0"
    "mgrid_axis (Min (set (map fst triangle_locs))) (Max (set (map fst triangle_locs))) 2 ! (2 - 1) = 1"
    unfolding triangle_bounds using main [THEN conjunct1, unfolded triangle_bounds] by simp_all
  have i0: "interpolate_image example_library triangle_locs
         (slice (0 * length triangle_locs) (length triangle_locs * (0 + 1)) (samples constant_features ! 0))
         (mgrid_axis (Min (set (map fst triangle_locs))) (Max (set (map fst triangle_locs))) 2)
         (mgrid_axis (Min (set (map snd triangle_locs))) (Max (set (map snd triangle_locs))) 2)
       = Inr [[Num 5, Num 5], [Num 5, NaN]]"
    by (rule img) (simp_all add: triangle_sizes)
  have ex: "\<exists>T. gen_images example_library triangle_locs constant_features 2 False False False (1 / 10) 2 False
            = Inr T
          \<and> length T = 1 \<and> length (T ! 0) = 1 \<and> length (T ! 0 ! 0) = 2 \<and> length (T ! 0 ! 0 ! 1) = 2
          \<and> T ! 0 ! 0 ! 1 ! 1 = Num 0 \<and> T ! 0 ! 0 ! 0 ! 0 = Num 5"
    using T props by blast
  have sz: "triangle_locs \<noteq> [] \<and> n_features constant_features = 1 * length triangle_locs \<and> (0::nat) < 1"
    by (simp add: triangle_sizes)
  from sz i0 g ex show ?thesis by (elim conjE) (intro conjI; assumption)
qed

lemma mapM_err_cong:
  "(\<And>x. x \<in> set xs \<Longrightarrow> f x = g x) \<Longrightarrow> mapM_err f xs = mapM_err g xs"
proof (induction xs)
  case Nil
  then show ?case by simp
next
  case (Cons a xs)
  then have "f a = g a" and "mapM_err f xs = mapM_err g xs" by simp_all
  then show ?case by (simp only: mapM_err.simps)
qed

lemma gen_images_of_images:
  assumes locs: "locs \<noteq> []" and k: "n_features F = k * length locs" "0 < k"
    and img: "\<And>i c. i < length (samples F) \<Longrightarrow> c < k \<Longrightarrow>
        interpolate_image L locs (slice (c * length locs) (length locs * (c + 1)) (samples F ! i))
          (mgrid_axis (Min (set (map fst locs))) (Max (set (map fst locs))) n)
          (mgrid_axis (Min (set (map snd locs))) (Max (set (map snd locs))) n) = Inr (img i c)"
  shows "gen_images L locs F n nrm False pca sm ncmp False =
      (case mapM_err (\<lambda>c. normalise_band L nrm
                (concat (map (\<lambda>i. concat (img i c)) [0..<length (samples F)]))) [0..<k] of
         Inl e \<Rightarrow> Inl e
       | Inr ti \<Rightarrow> Inr (swapaxes_tensor ti k (length (samples F)) n))"
proof -
  let ?ns = "length (samples F)"
  let ?gx = "mgrid_axis (Min (set (map fst locs))) (Max (set (map fst locs))) n"
  let ?gy = "mgrid_axis (Min (set (map snd locs))) (Max (set (map snd locs))) n"
  have nc: "n_features F div length locs = k" and md: "n_features F mod length locs = 0"
    using locs k by simp_all
  let ?interp = "map (\<lambda>i. map (\<lambda>c. img i c) [0..<k]) [0..<?ns]"
  have ia: "interpolate_all L locs (split_bands F (length locs) k) k ?ns ?gx ?gy = Inr ?interp"
  proof (rule interpolate_all_Inr)
    fix i c assume b: "i < ?ns" "c < k"
    then have "split_bands F (length locs) k ! c ! i
        = slice (c * length locs) (length locs * (c + 1)) (samples F ! i)"
      by (simp only: split_bands_nth)
    with img [OF b]
    show "interpolate_image L locs (split_bands F (length locs) k ! c ! i) ?gx ?gy = Inr (img i c)"
      by (simp only:)
  qed
  have bands: "mapM_err (\<lambda>c. normalise_band L nrm (flat_band ?interp ?ns c)) [0..<k]
      = mapM_err (\<lambda>c. normalise_band L nrm (concat (map (\<lambda>i. concat (img i c)) [0..<?ns]))) [0..<k]"
    by (rule mapM_err_cong) (simp add: flat_band_of_images)
  have "gen_images L locs F n nrm False pca sm ncmp False =
      (case mapM_err (\<lambda>c. normalise_band L nrm (flat_band ?interp ?ns c)) [0..<k] of
         Inl e \<Rightarrow> Inl e
       | Inr ti \<Rightarrow> Inr (swapaxes_tensor ti k ?ns n))"
    using locs k(2) unfolding gen_images_plain nc md ia
    by (simp split: sum.splits)
  then show ?thesis unfolding bands .
qed

lemma gen_images_returns:
  assumes locs: "locs \<noteq> []" and k: "n_features F = k * length locs" "0 < k"
    and img: "\<And>i c. i < length (samples F) \<Longrightarrow> c < k \<Longrightarrow>
        interpolate_image L locs (slice (c * length locs) (length locs * (c + 1)) (samples F ! i))
          (mgrid_axis (Min (set (map fst locs))) (Max (set (map fst locs))) n)
          (mgrid_axis (Min (set (map snd locs))) (Max (set (map snd locs))) n) = Inr (img i c)"
    and band: "\<And>c. c < k \<Longrightarrow>
        \<exists>b. normalise_band L nrm (concat (map (\<lambda>i. concat (img i c)) [0..<length (samples F)])) = Inr b"
  shows "\<exists>T. gen_images L locs F n nrm False pca sm ncmp False = Inr T"
proof -
  have "\<exists>ti. mapM_err (\<lambda>c. normalise_band L nrm
                (concat (map (\<lambda>i. concat (img i c)) [0..<length (samples F)]))) [0..<k] = Inr ti"
    by (rule mapM_err_total) (simp add: band)
  then obtain ti where "mapM_err (\<lambda>c. normalise_band L nrm
                (concat (map (\<lambda>i. concat (img i c)) [0..<length (samples F)]))) [0..<k] = Inr ti"
    by blast
  with gen_images_of_images [OF locs k img, of nrm pca sm ncmp]
  have "gen_images L locs F n nrm False pca sm ncmp False = Inr (swapaxes_tensor ti k (length (samples F)) n)"
    by simp
  then show ?thesis by blast
qed

section \<open>Data cell and model\<close>








lemma sum_list_divide: "sum_list (map (\<lambda>x. f x / c) xs) = sum_list (map f xs) / (c::real)"
  by (induction xs) (simp_all add: add_divide_distrib)

lemma sum_list_exp_pos: "z \<noteq> [] \<Longrightarrow> 0 < sum_list (map exp (z::real list))"
proof -
  assume "z \<noteq> []"
  then obtain a z' where z: "z = a # z'" by (cases z) auto
  have "0 \<le> sum_list (map exp z')" by (rule sum_list_nonneg) auto
  moreover have "0 < exp a" by simp
  ultimately show ?thesis unfolding z by (simp add: add_pos_nonneg)
qed

lemma softmax_probability:
  assumes "z \<noteq> []"
  shows "length (softmax z) = length z" and "sum_list (softmax z) = 1"
    and "\<forall>p\<in>set (softmax z). 0 < p"
proof -
  have s: "0 < sum_list (map exp z)" using assms by (rule sum_list_exp_pos)
  show "length (softmax z) = length z" by (simp add: softmax_def)
  show "sum_list (softmax z) = 1"
    using s by (simp add: softmax_def sum_list_divide [of exp])
  show "\<forall>p\<in>set (softmax z). 0 < p"
    using s by (auto simp: softmax_def)
qed

text \<open>
  Claim C10. \<open>create_model\<close> builds three Conv1D + AveragePooling1D blocks (16, 32 and 32
  filters, kernel size 3, pool size 2, stride 2, padding 'same'), then Flatten,
  BatchNormalization, Dense with 128 units, Dropout, Dense with \<^verbatim>\<open>class_num\<close>
  units and a softmax activation, so that the output over \<^verbatim>\<open>class_num\<close> classes
  is a probability vector; the loss is \<^verbatim>\<open>categorical_crossentropy\<close> for the
  optimizer 'Adam' and \<^verbatim>\<open>binary_crossentropy\<close> for 'SGD' and 'RMSprop'.
\<close>

theorem create_model_architecture:
  "layers (create_model cn shp init act dr opt lr) =
     [ Conv1D 16 3 ''same'' act None, AveragePooling1D 2 2 ''same'',
       Conv1D 32 3 ''same'' act (Some init), AveragePooling1D 2 2 ''same'',
       Conv1D 32 3 ''same'' act (Some init), AveragePooling1D 2 2 ''same'',
       Flatten, BatchNormalization (1 / 1000), Dense 128 (Some init) (Some act), Dropout dr,
       Dense cn None None, Activation ''softmax'' ]
   \<and> (0 < cn \<and> length z = cn \<longrightarrow>
        length (final_activation (create_model cn shp init act dr opt lr) z) = cn
        \<and> sum_list (final_activation (create_model cn shp init act dr opt lr) z) = 1
        \<and> (\<forall>p\<in>set (final_activation (create_model cn shp init act dr opt lr) z). 0 < p))
   \<and> (opt = ''Adam'' \<longrightarrow>
        loss_of (create_model cn shp init act dr opt lr) = Some ''categorical_crossentropy'')
   \<and> (opt = ''SGD'' \<or> opt = ''RMSprop'' \<longrightarrow>
        loss_of (create_model cn shp init act dr opt lr) = Some ''binary_crossentropy'')"
proof -
  have arch: "layers (create_model cn shp init act dr opt lr) =
     [ Conv1D 16 3 ''same'' act None, AveragePooling1D 2 2 ''same'',
       Conv1D 32 3 ''same'' act (Some init), AveragePooling1D 2 2 ''same'',
       Conv1D 32 3 ''same'' act (Some init), AveragePooling1D 2 2 ''same'',
       Flatten, BatchNormalization (1 / 1000), Dense 128 (Some init) (Some act), Dropout dr,
       Dense cn None None, Activation ''softmax'' ]"
    by (simp add: create_model_def nb_filters_def kernel_size_def pool_size_def stride_size_def
        padding_def dense_layer_neuron_num_def)
  have fin: "final_activation (create_model cn shp init act dr opt lr) z = softmax z"
    by (simp add: final_activation_def arch)
  have prob: "length (softmax z) = cn \<and> sum_list (softmax z) = 1 \<and> (\<forall>p\<in>set (softmax z). 0 < p)"
    if "0 < cn" "length z = cn"
  proof -
    from that have "z \<noteq> []" by auto
    from softmax_probability [OF this] that show ?thesis by simp
  qed
  have adam: "opt = ''Adam'' \<longrightarrow>
      loss_of (create_model cn shp init act dr opt lr) = Some ''categorical_crossentropy''"
    by (simp add: loss_of_def create_model_def)
  have other: "opt = ''SGD'' \<or> opt = ''RMSprop'' \<longrightarrow>
      loss_of (create_model cn shp init act dr opt lr) = Some ''binary_crossentropy''"
    by (auto simp: loss_of_def create_model_def)
  show ?thesis
    unfolding fin using arch prob adam other by blast
qed

theorem create_model_architecture_witness:
  "layers (create_model 2 (42, 3) ''he_normal'' ''sigmoid'' (3 / 10) ''Adam'' (1 / 10000)) =
     [ Conv1D 16 3 ''same'' ''sigmoid'' None, AveragePooling1D 2 2 ''same'',
       Conv1D 32 3 ''same'' ''sigmoid'' (Some ''he_normal''), AveragePooling1D 2 2 ''same'',
       Conv1D 32 3 ''same'' ''sigmoid'' (Some ''he_normal''), AveragePooling1D 2 2 ''same'',
       Flatten, BatchNormalization (1 / 1000), Dense 128 (Some ''he_normal'') (Some ''sigmoid''),
       Dropout (3 / 10), Dense 2 None None, Activation ''softmax'' ]
   \<and> (0::nat) < 2 \<and> length [0, 0 :: real] = 2
   \<and> final_activation (create_model 2 (42, 3) ''he_normal'' ''sigmoid'' (3 / 10) ''Adam'' (1 / 10000)) [0, 0]
        = [1 / 2, 1 / 2]
   \<and> sum_list (final_activation
        (create_model 2 (42, 3) ''he_normal'' ''sigmoid'' (3 / 10) ''Adam'' (1 / 10000)) [0, 0]) = 1
   \<and> loss_of (create_model 2 (42, 3) ''he_normal'' ''sigmoid'' (3 / 10) ''Adam'' (1 / 10000))
        = Some ''categorical_crossentropy''
   \<and> loss_of (create_model 2 (42, 3) ''he_normal'' ''sigmoid'' (3 / 10) ''SGD'' (1 / 10000))
        = Some ''binary_crossentropy''"
  using create_model_architecture [of 2 "(42, 3)" "''he_normal''" "''sigmoid''" "3 / 10" "''Adam''" "1 / 10000" "[0, 0]"]
    create_model_architecture [of 2 "(42, 3)" "''he_normal''" "''sigmoid''" "3 / 10" "''SGD''" "1 / 10000" "[0, 0]"]
  by (simp add: final_activation_def softmax_def)


section \<open>Cross-validation and metrics\<close>









































section \<open>The main cell and the save cell\<close>

lemma matrices_distinct: "distinct matrices"
  by (simp add: matrices_def)

lemma matrices_no_collision: "\<forall>a\<in>set matrices. \<forall>b\<in>set matrices. a @ ''_img'' \<noteq> b"
  by (simp add: matrices_def)

lemma project_rows:
  "mapM_err project_row rows = Inr l \<Longrightarrow> l = map (\<lambda>e. azim_proj (e ! 0, e ! 1, e ! 2)) rows"
proof (induction rows arbitrary: l)
  case Nil
  then show ?case by simp
next
  case (Cons e rows)
  then show ?case
    by (auto simp: project_row_def split: sum.splits if_splits)
qed

lemma generate_loop_Cons_InrD:
  assumes "generate_loop L locs (m # ms) (mc, tr) = Inr (mc', tr')"
  obtains F T where "mc m = Some (Array F)"
    and "gen_images L locs F n_grid True False False (1 / 10) 2 False = Inr T"
    and "generate_loop L locs ms ((mc(m := None))(m @ ''_img'' \<mapsto> Images T),
           tr @ generation_events mc locs m) = Inr (mc', tr')"
  using assms
  by (auto split: option.splits matvalue.splits sum.splits)

lemma generate_loop_frame:
  "generate_loop L locs ms (mc, tr) = Inr (mc', tr') \<Longrightarrow> k \<notin> set ms
     \<Longrightarrow> (\<forall>m\<in>set ms. k \<noteq> m @ ''_img'') \<Longrightarrow> mc' k = mc k"
proof (induction ms arbitrary: mc tr)
  case Nil
  then show ?case by simp
next
  case (Cons m ms)
  from Cons.prems(1) obtain F T where
    rest: "generate_loop L locs ms ((mc(m := None))(m @ ''_img'' \<mapsto> Images T),
             tr @ generation_events mc locs m) = Inr (mc', tr')"
    by (rule generate_loop_Cons_InrD)
  have "mc' k = ((mc(m := None))(m @ ''_img'' \<mapsto> Images T)) k"
    using Cons.prems(2,3) by (intro Cons.IH [OF rest]) auto
  then show ?case using Cons.prems(2,3) by auto
qed

lemma generate_loop_results:
  assumes "generate_loop L locs ms (mc, tr) = Inr (mc', tr')"
    and "distinct ms" and "\<forall>a\<in>set ms. \<forall>b\<in>set ms. a @ ''_img'' \<noteq> b"
  shows "tr' = tr @ concat (map (generation_events mc locs) ms)
    \<and> (\<forall>m\<in>set ms. \<exists>F T. mc m = Some (Array F)
          \<and> gen_images L locs F n_grid True False False (1 / 10) 2 False = Inr T
          \<and> mc' (m @ ''_img'') = Some (Images T) \<and> mc' m = None)"
  using assms
proof (induction ms arbitrary: mc tr)
  case Nil
  then show ?case by simp
next
  case (Cons m ms)
  from Cons.prems(1) obtain F T where
    F: "mc m = Some (Array F)"
    and T: "gen_images L locs F n_grid True False False (1 / 10) 2 False = Inr T"
    and rest: "generate_loop L locs ms ((mc(m := None))(m @ ''_img'' \<mapsto> Images T),
             tr @ generation_events mc locs m) = Inr (mc', tr')"
    by (rule generate_loop_Cons_InrD)
  let ?mc1 = "(mc(m := None))(m @ ''_img'' \<mapsto> Images T)"
  have d: "distinct ms" and nc: "\<forall>a\<in>set ms. \<forall>b\<in>set ms. a @ ''_img'' \<noteq> b"
    using Cons.prems(2,3) by simp_all
  have same: "?mc1 m' = mc m'" if "m' \<in> set ms" for m'
    using that Cons.prems(2,3) by auto
  have ev: "map (generation_events ?mc1 locs) ms = map (generation_events mc locs) ms"
    by (rule map_cong) (simp_all only: generation_events_def same)
  note ih = Cons.IH [OF rest d nc]
  have tr: "tr' = (tr @ generation_events mc locs m) @ concat (map (generation_events ?mc1 locs) ms)"
    using ih by (rule conjunct1)
  have res: "\<forall>m'\<in>set ms. \<exists>F T. ?mc1 m' = Some (Array F)
          \<and> gen_images L locs F n_grid True False False (1 / 10) 2 False = Inr T
          \<and> mc' (m' @ ''_img'') = Some (Images T) \<and> mc' m' = None"
    using ih by (rule conjunct2)
  have head_img: "mc' (m @ ''_img'') = Some (Images T)"
  proof -
    have "mc' (m @ ''_img'') = ?mc1 (m @ ''_img'')"
      using Cons.prems(2,3) by (intro generate_loop_frame [OF rest]) auto
    then show ?thesis by simp
  qed
  have head_del: "mc' m = None"
  proof -
    have "mc' m = ?mc1 m"
      using Cons.prems(2,3) by (intro generate_loop_frame [OF rest]) auto
    then show ?thesis by simp
  qed
  have tail: "\<forall>m'\<in>set ms. \<exists>F T. mc m' = Some (Array F)
          \<and> gen_images L locs F n_grid True False False (1 / 10) 2 False = Inr T
          \<and> mc' (m' @ ''_img'') = Some (Images T) \<and> mc' m' = None"
    using res same by (metis (no_types, lifting))
  show ?case
    using tr ev F T head_img head_del tail by simp
qed

lemma main_cell_InrD:
  assumes "main_cell L w = Inr g"
  obtains locs X mc mc' tr where
    "files w chans_path = Some locs" and "locs ''x'' = Some (Array X)"
    and "files w features_path = Some mc"
    and "mapM_err project_row (samples X) = Inr (locs_2d g)"
    and "generate_loop L (locs_2d g) matrices
           (mc, [Print ''Loading data...'', LoadMat chans_path, LoadMat features_path]) = Inr (mc', tr)"
    and "matContent g = mc'"
    and "trace g = tr @ [Print ''saving...'', Print ''Save file done..'']"
  using assms
  by (auto simp: main_cell_def loadmat_def split: option.splits matvalue.splits sum.splits prod.splits)

text \<open>
  Claim C5. When the notebook runs through, it has read the electrode positions and the
  feature tensors from their \<^verbatim>\<open>.mat\<close> files; \<^verbatim>\<open>locs_2d\<close> is the list of
  \<open>azim_proj e\<close> for the rows \<open>e\<close> of the positions, in order; for each of the nine
  names, in the order of the list, \<^verbatim>\<open>matContent\<close> holds under
  \<^verbatim>\<open>matrix + '_img'\<close> the result of
  \<^verbatim>\<open>gen_images(locs_2d, features, 128, normalize=True)\<close> for the features the file
  had under that name; and the trace is the two loads, then the nine generations, then
  the save, which comes last and writes the dictionary that holds all nine results.
\<close>

theorem pipeline_order:
  assumes "notebook L w = Inr (w', g)"
  shows "\<exists>locs X mc.
      files w chans_path = Some locs \<and> locs ''x'' = Some (Array X) \<and> files w features_path = Some mc
    \<and> locs_2d g = map (\<lambda>e. azim_proj (e ! 0, e ! 1, e ! 2)) (samples X)
    \<and> (\<forall>m\<in>set [''full_feat'', ''pd_feat'', ''nc_feat'', ''E1_feat'', ''E2_feat'', ''E3_feat'',
                 ''E4_feat'', ''E5_feat'', ''E6_feat''].
          \<exists>F T. mc m = Some (Array F)
            \<and> gen_images L (locs_2d g) F 128 True False False (1 / 10) 2 False = Inr T
            \<and> matContent g (m @ ''_img'') = Some (Images T))
    \<and> trace g =
        [Print ''Loading data...'', LoadMat chans_path, LoadMat features_path]
        @ concat (map (generation_events mc (locs_2d g))
            [''full_feat'', ''pd_feat'', ''nc_feat'', ''E1_feat'', ''E2_feat'', ''E3_feat'',
             ''E4_feat'', ''E5_feat'', ''E6_feat''])
        @ [Print ''saving...'', Print ''Save file done..'']
        @ (if writable w filename then [PickleDump filename] else [Print ''Something went wrong''])
    \<and> (writable w filename \<longrightarrow> files w' filename = Some (matContent g))"
proof -
  from assms obtain g0 where main: "main_cell L w = Inr g0" and save: "save_cell w g0 = (w', g)"
    by (auto simp: notebook_def split: sum.splits)
  from main obtain locs X mc mc' tr where
    f1: "files w chans_path = Some locs" and f2: "locs ''x'' = Some (Array X)"
    and f3: "files w features_path = Some mc"
    and proj: "mapM_err project_row (samples X) = Inr (locs_2d g0)"
    and loop: "generate_loop L (locs_2d g0) matrices
           (mc, [Print ''Loading data...'', LoadMat chans_path, LoadMat features_path]) = Inr (mc', tr)"
    and m0: "matContent g0 = mc'"
    and t0: "trace g0 = tr @ [Print ''saving...'', Print ''Save file done..'']"
    by (rule main_cell_InrD)
  have g: "locs_2d g = locs_2d g0" "matContent g = matContent g0"
    "trace g = trace g0 @ (if writable w filename then [PickleDump filename] else [Print ''Something went wrong''])"
    and w': "writable w filename \<longrightarrow> files w' filename = Some (matContent g)"
    using save by (auto simp: save_cell_def split: if_splits)
  note lr = generate_loop_results [OF loop matrices_distinct matrices_no_collision]
  have tr: "tr = [Print ''Loading data...'', LoadMat chans_path, LoadMat features_path]
              @ concat (map (generation_events mc (locs_2d g0)) matrices)"
    using lr by (rule conjunct1)
  have res: "\<forall>m\<in>set matrices. \<exists>F T. mc m = Some (Array F)
          \<and> gen_images L (locs_2d g0) F n_grid True False False (1 / 10) 2 False = Inr T
          \<and> mc' (m @ ''_img'') = Some (Images T) \<and> mc' m = None"
    using lr by (rule conjunct2)
  have p1: "locs_2d g = map (\<lambda>e. azim_proj (e ! 0, e ! 1, e ! 2)) (samples X)"
    using project_rows [OF proj] g by simp
  have p2: "\<forall>m\<in>set matrices. \<exists>F T. mc m = Some (Array F)
            \<and> gen_images L (locs_2d g) F 128 True False False (1 / 10) 2 False = Inr T
            \<and> matContent g (m @ ''_img'') = Some (Images T)"
    using res g m0 by (simp add: n_grid_def) blast
  have p3: "trace g =
        [Print ''Loading data...'', LoadMat chans_path, LoadMat features_path]
        @ concat (map (generation_events mc (locs_2d g)) matrices)
        @ [Print ''saving...'', Print ''Save file done..'']
        @ (if writable w filename then [PickleDump filename] else [Print ''Something went wrong''])"
    using g t0 tr by simp
  show ?thesis
    using f1 f2 f3 p1 p2 p3 w' unfolding matrices_def by blast
qed

lemma projected_rows:
  "mapM_err project_row [[0, 0, 1], [1, 0, 0], [0, 1, 0]] = Inr projected_locs"
proof -
  have "azim_proj (0, 0, 1) = (0, 0)" "azim_proj (1, 0, 0) = (pi / 2, 0)" "azim_proj (0, 1, 0) = (0, pi / 2)"
    by (simp_all add: azim_proj_unfold atan2_def)
  then show ?thesis by (simp add: project_row_def projected_locs_def)
qed

lemma projected_bounds:
  "Min (set (map fst projected_locs)) = 0" "Max (set (map fst projected_locs)) = pi / 2"
  "Min (set (map snd projected_locs)) = 0" "Max (set (map snd projected_locs)) = pi / 2"
  using pi_gt_zero by (simp_all add: projected_locs_def)

lemma sk_scale_finite:
  assumes "xs \<noteq> []" and "\<forall>v\<in>set xs. isfinite v"
  shows "\<exists>s. sk_scale xs = Inr s \<and> length s = length xs"
  using assms by (simp add: sk_scale_def Let_def)

lemma filter_not_nan_finite:
  assumes "\<forall>v\<in>set a. v = Num x \<or> v = NaN"
  shows "\<forall>v\<in>set (filter (\<lambda>v. \<not> isnan v) a). isfinite v"
  using assms by auto

lemma normalise_band_example:
  assumes "Num x \<in> set a" and "\<forall>v\<in>set a. v = Num x \<or> v = NaN"
  shows "\<exists>b. normalise_band example_library True a = Inr b"
proof -
  have ne: "filter (\<lambda>v. \<not> isnan v) a \<noteq> []"
    using assms(1) by (auto simp: filter_empty_conv intro!: bexI [of _ "Num x"])
  from sk_scale_finite [OF ne filter_not_nan_finite [OF assms(2)]]
  obtain s where "sk_scale (filter (\<lambda>v. \<not> isnan v) a) = Inr s"
    and "length s = length (filter (\<lambda>v. \<not> isnan v) a)" by blast
  then show ?thesis by (simp add: normalise_band_def example_library_def)
qed

lemma projected_gen_images:
  "\<exists>T. gen_images example_library projected_locs constant_features n_grid True False False (1 / 10) 2 False
        = Inr T"
proof -
  define gx where "gx = mgrid_axis 0 (pi / 2) n_grid"
  define ip :: "real \<times> real \<Rightarrow> npfloat"
    where "ip = (\<lambda>(x, y). if 0 \<le> x \<and> 0 \<le> y \<and> x + y \<le> pi / 2 then Num 5 else NaN)"
  define img where "img = map (\<lambda>x. map (\<lambda>y. ip (x, y)) gx) gx"
  have g: "griddata example_library projected_locs [5, 5, 5] = Inr ip"
    using pi_gt_zero
    by (auto simp: example_library_def right_triangle_griddata_def projected_locs_def fun_eq_iff ip_def)
  have im: "interpolate_image example_library projected_locs [5, 5, 5] gx gx = Inr img"
    by (simp add: interpolate_image_def g img_def)
  have n: "1 < n_grid" "0 < n_grid" by (simp_all add: n_grid_def)
  have g0: "gx ! 0 = 0" unfolding gx_def using mgrid_axis_span(1) [OF n(1)] by simp
  have len: "length gx = n_grid" unfolding gx_def by (rule length_mgrid_axis)
  have in_gx: "0 \<in> set gx" using g0 len n(2) by (metis nth_mem)
  have ip00: "ip (0, 0) = Num 5" using pi_gt_zero by (simp add: ip_def)
  have rng: "ip p = Num 5 \<or> ip p = NaN" for p by (cases p) (simp add: ip_def)
  have has: "Num 5 \<in> set (concat img)"
  proof -
    have "ip (0, 0) \<in> set (map (\<lambda>y. ip (0, y)) gx)" using in_gx by (simp add: image_iff) blast
    moreover have "map (\<lambda>y. ip (0, y)) gx \<in> set img"
      unfolding img_def using in_gx by (simp add: image_iff) blast
    ultimately show ?thesis unfolding ip00 by (simp only: set_concat) blast
  qed
  have only: "\<forall>v\<in>set (concat img). v = Num 5 \<or> v = NaN"
    unfolding img_def using rng by auto
  have band: "\<exists>b. normalise_band example_library True (concat (map (\<lambda>i. concat img) [0..<1])) = Inr b"
    using normalise_band_example [OF has only] by (simp add: upt_0_1)
  show ?thesis
  proof (rule gen_images_returns [of projected_locs constant_features 1 example_library n_grid "\<lambda>i c. img"])
    show "projected_locs \<noteq> []" by (simp add: projected_locs_def)
    show "n_features constant_features = 1 * length projected_locs"
      by (simp add: constant_features_def projected_locs_def)
    show "0 < (1::nat)" by simp
  next
    fix i c :: nat assume "i < length (samples constant_features)" "c < 1"
    then have "i = 0" "c = 0" by (simp_all add: constant_features_def)
    then show "interpolate_image example_library projected_locs
        (slice (c * length projected_locs) (length projected_locs * (c + 1)) (samples constant_features ! i))
        (mgrid_axis (Min (set (map fst projected_locs))) (Max (set (map fst projected_locs))) n_grid)
        (mgrid_axis (Min (set (map snd projected_locs))) (Max (set (map snd projected_locs))) n_grid)
        = Inr img"
      unfolding projected_bounds gx_def [symmetric] using im
      by (simp add: constant_features_def slice_def projected_locs_def)
  next
    fix c :: nat assume "c < 1"
    show "\<exists>b. normalise_band example_library True
        (concat (map (\<lambda>i. concat img) [0..<length (samples constant_features)])) = Inr b"
      using band by (simp add: constant_features_def)
  qed
qed

lemma generate_loop_total:
  assumes "distinct ms" and "\<forall>a\<in>set ms. \<forall>b\<in>set ms. a @ ''_img'' \<noteq> b"
    and "\<forall>m\<in>set ms. \<exists>F T. mc m = Some (Array F)
           \<and> gen_images L locs F n_grid True False False (1 / 10) 2 False = Inr T"
  shows "\<exists>st. generate_loop L locs ms (mc, tr) = Inr st"
  using assms
proof (induction ms arbitrary: mc tr)
  case Nil
  then show ?case by simp
next
  case (Cons m ms)
  from Cons.prems(3) obtain F T where F: "mc m = Some (Array F)"
    and T: "gen_images L locs F n_grid True False False (1 / 10) 2 False = Inr T"
    by auto
  let ?mc1 = "(mc(m := None))(m @ ''_img'' \<mapsto> Images T)"
  have same: "?mc1 m' = mc m'" if "m' \<in> set ms" for m'
    using that Cons.prems(1,2) by auto
  have "\<exists>st. generate_loop L locs ms (?mc1, tr @ generation_events mc locs m) = Inr st"
  proof (rule Cons.IH)
    show "distinct ms" using Cons.prems(1) by simp
    show "\<forall>a\<in>set ms. \<forall>b\<in>set ms. a @ ''_img'' \<noteq> b" using Cons.prems(2) by simp
    show "\<forall>m\<in>set ms. \<exists>F T. ?mc1 m = Some (Array F)
           \<and> gen_images L locs F n_grid True False False (1 / 10) 2 False = Inr T"
      using Cons.prems(3) same by (metis (no_types, lifting) list.set_intros(2))
  qed
  then show ?case using F T by simp
qed

lemma example_notebook_runs:
  "\<exists>w' g. notebook example_library example_world = Inr (w', g)"
proof -
  have all: "\<forall>m\<in>set matrices. \<exists>F T. example_features_file m = Some (Array F)
           \<and> gen_images example_library projected_locs F n_grid True False False (1 / 10) 2 False = Inr T"
    using projected_gen_images by (simp add: example_features_file_def)
  from generate_loop_total [OF matrices_distinct matrices_no_collision all]
  obtain mc' tr' where "generate_loop example_library projected_locs matrices
      (example_features_file, [Print ''Loading data...'', LoadMat chans_path, LoadMat features_path])
      = Inr (mc', tr')"
    by (metis surj_pair)
  note loop = this
  have ne: "chans_path \<noteq> features_path" by (simp add: chans_path_def features_path_def)
  have l1: "loadmat example_world chans_path = Inr example_chans"
    using ne by (simp add: loadmat_def example_world_def)
  have l2: "loadmat example_world features_path = Inr example_features_file"
    by (simp add: loadmat_def example_world_def)
  have x: "example_chans ''x'' = Some (Array \<lparr> n_features = 3, samples = [[0, 0, 1], [1, 0, 0], [0, 1, 0]] \<rparr>)"
    by (simp add: example_chans_def)
  have "main_cell example_library example_world
      = Inr \<lparr> locs_2d = projected_locs, matContent = mc',
               trace = tr' @ [Print ''saving...'', Print ''Save file done..''] \<rparr>"
    unfolding main_cell_def l1 sum.case x option.case matvalue.case feature_matrix.select_convs
      projected_rows l2 loop prod.case ..
  then show ?thesis by (simp add: notebook_def)
qed

theorem pipeline_order_witness:
  "\<exists>w' g. notebook example_library example_world = Inr (w', g)
     \<and> locs_2d g = [(0, 0), (pi / 2, 0), (0, pi / 2)]
     \<and> (\<exists>T. gen_images example_library (locs_2d g) constant_features 128 True False False (1 / 10) 2 False
               = Inr T
            \<and> matContent g ''full_feat_img'' = Some (Images T))
     \<and> files w' filename = Some (matContent g)
     \<and> last (trace g) = PickleDump filename"
proof -
  from example_notebook_runs obtain w' g where run: "notebook example_library example_world = Inr (w', g)"
    by blast
  from pipeline_order [OF run] obtain locs X mc where
    f1: "files example_world chans_path = Some locs" and f2: "locs ''x'' = Some (Array X)"
    and f3: "files example_world features_path = Some mc"
    and p1: "locs_2d g = map (\<lambda>e. azim_proj (e ! 0, e ! 1, e ! 2)) (samples X)"
    and p2: "\<forall>m\<in>set [''full_feat'', ''pd_feat'', ''nc_feat'', ''E1_feat'', ''E2_feat'', ''E3_feat'',
                 ''E4_feat'', ''E5_feat'', ''E6_feat''].
          \<exists>F T. mc m = Some (Array F)
            \<and> gen_images example_library (locs_2d g) F 128 True False False (1 / 10) 2 False = Inr T
            \<and> matContent g (m @ ''_img'') = Some (Images T)"
    and p3: "trace g =
        [Print ''Loading data...'', LoadMat chans_path, LoadMat features_path]
        @ concat (map (generation_events mc (locs_2d g))
            [''full_feat'', ''pd_feat'', ''nc_feat'', ''E1_feat'', ''E2_feat'', ''E3_feat'',
             ''E4_feat'', ''E5_feat'', ''E6_feat''])
        @ [Print ''saving...'', Print ''Save file done..'']
        @ (if writable example_world filename then [PickleDump filename] else [Print ''Something went wrong''])"
    and p4: "writable example_world filename \<longrightarrow> files w' filename = Some (matContent g)"
    by blast
  have ne: "chans_path \<noteq> features_path" by (simp add: chans_path_def features_path_def)
  have locs: "locs = example_chans" using f1 ne by (simp add: example_world_def)
  have X: "X = \<lparr> n_features = 3, samples = [[0, 0, 1], [1, 0, 0], [0, 1, 0]] \<rparr>"
    using f2 by (simp add: locs example_chans_def)
  have mc: "mc = example_features_file" using f3 by (simp add: example_world_def)
  have w: "writable example_world filename" by (simp add: example_world_def)
  have c1: "locs_2d g = [(0, 0), (pi / 2, 0), (0, pi / 2)]"
    using project_rows [OF projected_rows] by (simp add: p1 X projected_locs_def)
  from p2 obtain F T where "mc ''full_feat'' = Some (Array F)"
    and T: "gen_images example_library (locs_2d g) F 128 True False False (1 / 10) 2 False = Inr T"
    and i: "matContent g (''full_feat'' @ ''_img'') = Some (Images T)"
    by auto
  then have "F = constant_features" by (simp add: mc example_features_file_def matrices_def)
  with T i have c2: "\<exists>T. gen_images example_library (locs_2d g) constant_features 128 True False False (1 / 10) 2 False
               = Inr T
            \<and> matContent g ''full_feat_img'' = Some (Images T)"
    by auto
  have c3: "files w' filename = Some (matContent g)" using p4 w by simp
  have c4: "last (trace g) = PickleDump filename" unfolding p3 using w by simp
  from run c1 c2 c3 c4 show ?thesis by blast
qed

end
